theory Spec2Isabelle
  imports Main "HOL-Library.AList" "HOL-Library.Sublist"
begin

section \<open>Python values\<close>

text \<open>
  The client of \<^verbatim>\<open>src/webtop/client.py\<close> handles loosely typed JSON: what
  \<^verbatim>\<open>resp.json()\<close> returns and what is passed as \<^verbatim>\<open>json=...\<close>. A Python float is
  kept as a mantissa and a binary exponent (\<open>Finite m e\<close> stands for \<open>m * 2^e\<close>), or as
  one of the special values that \<^verbatim>\<open>json.loads\<close> accepts. A dict is an association list
  in insertion order, looked up with \<open>map_of\<close>.
\<close>

datatype pyfloat = Finite int int | Infinity bool | NaN

datatype pyval =
    PNone
  | PBool bool
  | PInt int
  | PFloat pyfloat
  | PStr string
  | PList "pyval list"
  | PDict "(string \<times> pyval) list"

text \<open>Python's truth value of an object, as used by \<^verbatim>\<open>not x\<close> and \<^verbatim>\<open>x or y\<close>.\<close>

fun float_truthy :: "pyfloat \<Rightarrow> bool" where
  "float_truthy (Finite m e) = (m \<noteq> 0)"
| "float_truthy (Infinity neg) = True"
| "float_truthy NaN = True"

fun truthy :: "pyval \<Rightarrow> bool" where
  "truthy PNone = False"
| "truthy (PBool b) = b"
| "truthy (PInt i) = (i \<noteq> 0)"
| "truthy (PFloat f) = float_truthy f"
| "truthy (PStr s) = (s \<noteq> [])"
| "truthy (PList xs) = (xs \<noteq> [])"
| "truthy (PDict kvs) = (kvs \<noteq> [])"

fun type_name :: "pyval \<Rightarrow> string" where
  "type_name PNone = ''NoneType''"
| "type_name (PBool b) = ''bool''"
| "type_name (PInt i) = ''int''"
| "type_name (PFloat f) = ''float''"
| "type_name (PStr s) = ''str''"
| "type_name (PList xs) = ''list''"
| "type_name (PDict kvs) = ''dict''"

fun is_str :: "pyval \<Rightarrow> bool" where
  "is_str (PStr s) = True"
| "is_str v = False"

fun the_str :: "pyval \<Rightarrow> string" where
  "the_str (PStr s) = s"
| "the_str v = []"

text \<open>
  Modelled from the spec: \<^verbatim>\<open>WebtopLoginError\<close> and \<^verbatim>\<open>WebtopRequestError\<close>
  (\<^verbatim>\<open>src/webtop/exceptions.py\<close> is absent), the two error kinds of the client, each
  carrying a human-readable message. The other exceptions that can leave the client are
  Python's and the transport's: \<open>AttributeError t a\<close> for looking up attribute \<open>a\<close> on
  an object of type \<open>t\<close>, \<open>TypeError t\<close> for an object of type \<open>t\<close> where text is
  expected, a body that does not decode, a network failure, a closed client.
\<close>

datatype exn =
    WebtopLoginError string
  | WebtopRequestError string
  | AttributeError string string
  | TypeError string
  | JSONDecodeError string
  | TransportError string
  | RuntimeError string

text \<open>\<^verbatim>\<open>str(e)\<close>, as an f-string renders an exception.\<close>

fun exn_str :: "exn \<Rightarrow> string" where
  "exn_str (WebtopLoginError m) = m"
| "exn_str (WebtopRequestError m) = m"
| "exn_str (AttributeError t a) =
     [CHR 0x27] @ t @ [CHR 0x27] @ '' object has no attribute '' @ [CHR 0x27] @ a @ [CHR 0x27]"
| "exn_str (TypeError t) =
     ''expected string or bytes-like object, got '' @ [CHR 0x27] @ t @ [CHR 0x27]"
| "exn_str (JSONDecodeError m) = m"
| "exn_str (TransportError m) = m"
| "exn_str (RuntimeError m) = m"

text \<open>\<^verbatim>\<open>d.get(k)\<close> on a dict: the value, or \<^verbatim>\<open>None\<close> when the key is absent.\<close>

definition dict_get :: "(string \<times> pyval) list \<Rightarrow> string \<Rightarrow> pyval" where
  "dict_get d k = (case map_of d k of None \<Rightarrow> PNone | Some v \<Rightarrow> v)"

text \<open>
  Resolving \<^verbatim>\<open>v.get\<close>: only a dict has the method; on every other JSON value the
  attribute lookup raises \<^verbatim>\<open>AttributeError\<close>.
\<close>

fun get_method :: "pyval \<Rightarrow> exn + (string \<Rightarrow> pyval)" where
  "get_method (PDict d) = Inr (dict_get d)"
| "get_method v = Inl (AttributeError (type_name v) ''get'')"

text \<open>\<^verbatim>\<open>str(n)\<close> for an int, as an f-string renders a status code.\<close>

definition digit_char :: "nat \<Rightarrow> char" where
  "digit_char d =
     (if d = 0 then CHR ''0'' else if d = 1 then CHR ''1'' else if d = 2 then CHR ''2''
      else if d = 3 then CHR ''3'' else if d = 4 then CHR ''4'' else if d = 5 then CHR ''5''
      else if d = 6 then CHR ''6'' else if d = 7 then CHR ''7'' else if d = 8 then CHR ''8''
      else CHR ''9'')"

fun str_nat :: "nat \<Rightarrow> string" where
  "str_nat n =
     (if n < 10 then [digit_char n] else str_nat (n div 10) @ [digit_char (n mod 10)])"

declare str_nat.simps [simp del]

definition str_int :: "int \<Rightarrow> string" where
  "str_int i = (if i < 0 then CHR ''-'' # str_nat (nat (- i)) else str_nat (nat i))"

section \<open>The transport\<close>

text \<open>
  \<^verbatim>\<open>httpx.AsyncClient\<close> is a collaborator, not code of the repository. The model keeps
  what bears on the client's code: the settings given at construction, the cookie jar,
  whether the client has been closed, and what the transport does with cookies when it
  builds a request and when it receives a response.

  The jar files a cookie under a domain, a path and a name. A cookie stored by
  \<^verbatim>\<open>cookies.set(name, value)\<close> has the empty domain and the path \<^verbatim>\<open>/\<close>, so it is offered
  to every request; these are kept in \<open>cookies\<close>, by name, with whatever value the code
  handed over. A cookie that a response sets is filed under a domain of its own, never the
  empty one, and its value is text; these are kept in \<open>server_cookies\<close>.
\<close>

type_synonym cookie_key = "string \<times> string \<times> string"

text \<open>
  A response: its status code, its text, the outcome of \<^verbatim>\<open>resp.json()\<close> (the exception
  raised, or the decoded value) and the cookies its \<^verbatim>\<open>Set-Cookie\<close> headers file in the jar
  (a value to store, or \<open>None\<close> for a cookie that arrives expired and is dropped). Where the
  transport follows redirects, the response is the last one and \<open>set_cookies\<close> gathers
  what all of them set.
\<close>

record Response =
  status_code :: int
  resp_text :: string
  json :: "exn + pyval"
  set_cookies :: "(cookie_key \<times> string option) list"

record AsyncClient =
  http_base_url :: string
  timeout :: pyfloat
  headers :: "(string \<times> string) list"
  follow_redirects :: bool
  cookies :: "(string \<times> pyval) list"
  server_cookies :: "(cookie_key \<times> string) list"
  is_closed :: bool

text \<open>
  Of the keyword arguments that \<^verbatim>\<open>request\<close> hands on to the transport, the model keeps
  \<^verbatim>\<open>json=\<close> and \<^verbatim>\<open>cookies=\<close> (a dict of names and text values, as the transport types
  it); \<open>None\<close> is an argument left out.
\<close>

record kwargs =
  kw_json :: "pyval option"
  kw_cookies :: "(string \<times> string) list option"

definition json_only :: "pyval \<Rightarrow> kwargs" where
  "json_only v = \<lparr>kw_json = Some v, kw_cookies = None\<rparr>"

text \<open>
  What one call of the transport puts on the wire: the method, the path, the headers given
  with the call, the JSON body, and the cookies the transport attaches from the empty-domain
  part of the jar. (Cookies that the portal itself has set go back to it as the cookie
  policy decides; they are not recorded.)
\<close>

record sent_request =
  req_method :: string
  req_path :: string
  req_headers :: "(string \<times> string) list"
  req_json :: "pyval option"
  req_cookies :: "(string \<times> string) list"

text \<open>A header name that is \<^verbatim>\<open>Cookie\<close>, whatever its case.\<close>

fun is_cookie_header :: "string \<Rightarrow> bool" where
  "is_cookie_header [a, b, c, d, e, f] =
     ((a = CHR ''c'' \<or> a = CHR ''C'') \<and> (b = CHR ''o'' \<or> b = CHR ''O'') \<and>
      (c = CHR ''o'' \<or> c = CHR ''O'') \<and> (d = CHR ''k'' \<or> d = CHR ''K'') \<and>
      (e = CHR ''i'' \<or> e = CHR ''I'') \<and> (f = CHR ''e'' \<or> f = CHR ''E''))"
| "is_cookie_header k = False"

definition has_cookie_header :: "(string \<times> string) list \<Rightarrow> bool" where
  "has_cookie_header hs = list_ex (\<lambda>kv. is_cookie_header (fst kv)) hs"

text \<open>
  The cookies of one request: the jar's, with those of \<^verbatim>\<open>cookies=\<close> stored on top
  (same domain, same path, so a cookie of the same name is replaced).
\<close>

definition merge_cookies ::
  "(string \<times> pyval) list \<Rightarrow> (string \<times> string) list option \<Rightarrow> (string \<times> pyval) list" where
  "merge_cookies jar kc =
     (case kc of
        None \<Rightarrow> jar
      | Some d \<Rightarrow> fold (\<lambda>kv acc. AList.update (fst kv) (PStr (snd kv)) acc) d jar)"

definition cookies_ok :: "(string \<times> pyval) list \<Rightarrow> bool" where
  "cookies_ok jar = list_all (\<lambda>kv. is_str (snd kv)) jar"

text \<open>
  Building the request. The cookie jar renders each cookie it offers with a regular
  expression search on its value, which raises \<^verbatim>\<open>TypeError\<close> on a value that is not text;
  the request is then never built. The rendered cookies become the \<^verbatim>\<open>Cookie\<close> header
  unless the request already has one, from the client's default headers or from the call:
  then the jar adds nothing.
\<close>

definition build_request ::
  "AsyncClient \<Rightarrow> string \<Rightarrow> string \<Rightarrow> (string \<times> string) list \<Rightarrow> kwargs
     \<Rightarrow> exn + sent_request" where
  "build_request h m p hs kw =
     (let merged = merge_cookies (cookies h) (kw_cookies kw) in
      if \<not> cookies_ok merged then
        Inl (TypeError (type_name (snd (hd (filter (\<lambda>kv. \<not> is_str (snd kv)) merged)))))
      else
        Inr \<lparr>req_method = m, req_path = p, req_headers = hs, req_json = kw_json kw,
             req_cookies =
               (if has_cookie_header (headers h) \<or> has_cookie_header hs then []
                else map (\<lambda>kv. (fst kv, the_str (snd kv))) merged)\<rparr>)"

text \<open>Filing the cookies of a response in the jar.\<close>

definition file_cookie ::
  "cookie_key \<times> string option \<Rightarrow> (cookie_key \<times> string) list \<Rightarrow> (cookie_key \<times> string) list"
  where
  "file_cookie c jar =
     (if fst (fst c) = [] then jar
      else case snd c of
             None \<Rightarrow> AList.delete (fst c) jar
           | Some v \<Rightarrow> AList.update (fst c) v jar)"

definition extract_cookies :: "Response \<Rightarrow> AsyncClient \<Rightarrow> AsyncClient" where
  "extract_cookies r h = h\<lparr>server_cookies := fold file_cookie (set_cookies r) (server_cookies h)\<rparr>"

text \<open>
  The environment of a run: the portal, which answers a request (given the requests sent
  before it) with a response or makes the transport raise, and Python's \<^verbatim>\<open>repr\<close>, which
  the \<^verbatim>\<open>!r\<close> conversions of one message call.
\<close>

record env =
  server :: "sent_request list \<Rightarrow> sent_request \<Rightarrow> exn + Response"
  repr :: "pyval \<Rightarrow> string"

section \<open>Session and client\<close>

text \<open>
  Modelled from the spec: \<^verbatim>\<open>WebtopSession\<close> (\<^verbatim>\<open>src/webtop/models.py\<close> is absent).
  A plain value type with the eight fields the constructor call in \<^verbatim>\<open>login()\<close> names;
  each field holds whatever the login payload had under its key.
\<close>

record WebtopSession =
  token :: pyval
  user_id :: pyval
  student_id :: pyval
  school_id :: pyval
  school_name :: pyval
  first_name :: pyval
  last_name :: pyval
  raw_login_data :: pyval

text \<open>
  The fields of \<^verbatim>\<open>WebtopClient\<close>; the source names them with a leading underscore
  (\<^verbatim>\<open>self._username\<close>, ..., \<^verbatim>\<open>self._session\<close>).
\<close>

record WebtopClient =
  username :: string
  password :: string
  data :: string
  remember_me :: bool
  biometric_login :: string
  base_url :: string
  auto_login :: bool
  http :: AsyncClient
  session :: "WebtopSession option"

text \<open>The client together with the requests put on the wire so far, oldest first.\<close>

record sys =
  client :: WebtopClient
  wire :: "sent_request list"

definition DEFAULT_BASE_URL :: string where
  "DEFAULT_BASE_URL = ''https://webtopserver.smartschool.co.il''"

text \<open>\<^verbatim>\<open>s.rstrip("/")\<close>.\<close>

definition rstrip_slash :: "string \<Rightarrow> string" where
  "rstrip_slash s = rev (dropWhile (\<lambda>c. c = CHR ''/'') (rev s))"

text \<open>
  \<^verbatim>\<open>__init__\<close>. A keyword argument that the caller leaves out is \<open>None\<close> here and takes
  the default of the signature.
\<close>

definition init ::
  "string \<Rightarrow> string \<Rightarrow> string option \<Rightarrow> bool option \<Rightarrow> string option \<Rightarrow> string option
     \<Rightarrow> pyfloat option \<Rightarrow> bool option \<Rightarrow> WebtopClient" where
  "init usr pw dat rem bio url tmo auto =
     (let b = rstrip_slash (case url of None \<Rightarrow> DEFAULT_BASE_URL | Some u \<Rightarrow> u) in
      \<lparr>username = usr,
       password = pw,
       data = (case dat of None \<Rightarrow> ''+Aabe7FAdVluG6Lu+0ibrA=='' | Some d \<Rightarrow> d),
       remember_me = (case rem of None \<Rightarrow> False | Some r \<Rightarrow> r),
       biometric_login = (case bio of None \<Rightarrow> '''' | Some x \<Rightarrow> x),
       base_url = b,
       auto_login = (case auto of None \<Rightarrow> True | Some a \<Rightarrow> a),
       http = \<lparr>http_base_url = b,
               timeout = (case tmo of None \<Rightarrow> Finite 5 2 | Some t \<Rightarrow> t),
               headers = [(''Content-Type'', ''application/json; charset=utf-8'')],
               follow_redirects = True,
               cookies = [],
               server_cookies = [],
               is_closed = False\<rparr>,
       session = None\<rparr>)"

definition close :: "sys \<Rightarrow> sys" where
  "close s = s\<lparr>client := (client s)\<lparr>http := (http (client s))\<lparr>is_closed := True\<rparr>\<rparr>\<rparr>"

definition is_logged_in :: "WebtopClient \<Rightarrow> bool" where
  "is_logged_in c = (session c \<noteq> None)"

text \<open>The \<^verbatim>\<open>session\<close> property.\<close>

definition get_session :: "WebtopClient \<Rightarrow> exn + WebtopSession" where
  "get_session c =
     (case session c of
        None \<Rightarrow> Inl (WebtopLoginError ''Not logged in. Call await client.login() first.'')
      | Some x \<Rightarrow> Inr x)"

text \<open>
  \<^verbatim>\<open>self._http.request(method, path, headers=..., **kwargs)\<close>, one call of the transport.
  It builds the request first, and a request that cannot be built is not sent. A closed
  client refuses to send. Otherwise the request goes on the wire and the portal decides
  the outcome; the transport files the cookies of the response in the jar before the
  caller sees the response.
\<close>

definition http_request ::
  "env \<Rightarrow> string \<Rightarrow> string \<Rightarrow> (string \<times> string) list \<Rightarrow> kwargs \<Rightarrow> sys
     \<Rightarrow> (exn + Response) \<times> sys" where
  "http_request e m p hs kw s =
     (case build_request (http (client s)) m p hs kw of
        Inl x \<Rightarrow> (Inl x, s)
      | Inr rq \<Rightarrow>
          if is_closed (http (client s))
          then (Inl (RuntimeError ''Cannot send a request, as the client has been closed.''), s)
          else (case server e (wire s) rq of
                  Inl x \<Rightarrow> (Inl x, s\<lparr>wire := wire s @ [rq]\<rparr>)
                | Inr r \<Rightarrow>
                    (Inr r,
                     s\<lparr>client := (client s)\<lparr>http := extract_cookies r (http (client s))\<rparr>,
                       wire := wire s @ [rq]\<rparr>)))"

text \<open>
  \<^verbatim>\<open>self._http.cookies.set(name, value)\<close>: the value is stored as it is, text or not.
\<close>

definition cookies_set :: "string \<Rightarrow> pyval \<Rightarrow> AsyncClient \<Rightarrow> AsyncClient" where
  "cookies_set name v h = h\<lparr>cookies := AList.update name v (cookies h)\<rparr>"

section \<open>Login\<close>

definition login_body :: "WebtopClient \<Rightarrow> pyval" where
  "login_body c =
     PDict [(''UserName'', PStr (username c)),
            (''Password'', PStr (password c)),
            (''Data'', PStr (data c)),
            (''RememberMe'', PBool (remember_me c)),
            (''BiometricLogin'', PStr (biometric_login c))]"

text \<open>The call \<^verbatim>\<open>self._http.post(...)\<close> that opens \<^verbatim>\<open>login()\<close>.\<close>

definition login_post :: "env \<Rightarrow> sys \<Rightarrow> (exn + Response) \<times> sys" where
  "login_post e s =
     http_request e ''POST'' ''/server/api/user/LoginByUserNameAndPassword'' []
       (json_only (login_body (client s))) s"

definition login :: "env \<Rightarrow> sys \<Rightarrow> (exn + WebtopSession) \<times> sys" where
  "login e s =
     (case login_post e s of
        (Inl x, s1) \<Rightarrow> (Inl x, s1)
      | (Inr resp, s1) \<Rightarrow>
          if status_code resp \<ge> 400 then
            (Inl (WebtopLoginError
                    (''Login failed ('' @ str_int (status_code resp) @ ''): '' @ resp_text resp)),
             s1)
          else
            (case json resp of
               Inl x \<Rightarrow>
                 (Inl (WebtopLoginError (''Login response is not JSON: '' @ exn_str x)), s1)
             | Inr body \<Rightarrow>
                 (case get_method body of
                    Inl x \<Rightarrow> (Inl x, s1)
                  | Inr body_get \<Rightarrow>
                      if body_get ''status'' \<noteq> PBool True then
                        (Inl (WebtopLoginError
                                (''Login returned status=false. '' @
                                 ''errorDescription='' @ repr e (body_get ''errorDescription'') @
                                 '', errorId='' @ repr e (body_get ''errorId''))),
                         s1)
                      else
                        (let d = (if truthy (body_get ''data'') then body_get ''data''
                                  else PDict [])
                         in case get_method d of
                              Inl x \<Rightarrow> (Inl x, s1)
                            | Inr data_get \<Rightarrow>
                                (let tok = data_get ''token'' in
                                 if \<not> truthy tok then
                                   (Inl (WebtopLoginError
                                           ''Login succeeded but data.token is missing''),
                                    s1)
                                 else
                                   (let sess =
                                          \<lparr>token = tok,
                                           user_id = data_get ''userId'',
                                           student_id = data_get ''studentId'',
                                           school_id = data_get ''schoolId'',
                                           school_name = data_get ''schoolName'',
                                           first_name = data_get ''firstName'',
                                           last_name = data_get ''lastName'',
                                           raw_login_data = d\<rparr>
                                    in (Inr sess,
                                        s1\<lparr>client := (client s1)
                                              \<lparr>http := cookies_set ''webToken'' tok
                                                         (http (client s1)),
                                               session := Some sess\<rparr>\<rparr>)))))))"

text \<open>
  \<^verbatim>\<open>if self._session:\<close> asks for the truth value of the field; a session object has no
  length and no truth value of its own, so it is true, and the test is whether there is one.
\<close>

definition ensure_logged_in :: "env \<Rightarrow> sys \<Rightarrow> (exn + unit) \<times> sys" where
  "ensure_logged_in e s =
     (if session (client s) \<noteq> None then (Inr (), s)
      else if \<not> auto_login (client s) then
        (Inl (WebtopLoginError
                ''Not logged in and auto_login=False. Call await client.login().''), s)
      else (case login e s of
              (Inl x, s1) \<Rightarrow> (Inl x, s1)
            | (Inr sess, s1) \<Rightarrow> (Inr (), s1)))"

section \<open>Authenticated requests\<close>

text \<open>\<^verbatim>\<open>d.update(h)\<close> on dicts kept as association lists.\<close>

definition dict_update ::
  "(string \<times> string) list \<Rightarrow> (string \<times> string) list \<Rightarrow> (string \<times> string) list" where
  "dict_update d h = fold (\<lambda>kv acc. AList.update (fst kv) (snd kv) acc) h d"

text \<open>
  The \<^verbatim>\<open>final_headers\<close> of \<^verbatim>\<open>request\<close>: empty, then updated with the caller's headers
  when these are given and not empty.
\<close>

definition final_headers :: "(string \<times> string) list option \<Rightarrow> (string \<times> string) list" where
  "final_headers hs =
     (case hs of None \<Rightarrow> [] | Some h \<Rightarrow> if h \<noteq> [] then dict_update [] h else [])"

definition request ::
  "env \<Rightarrow> string \<Rightarrow> string \<Rightarrow> (string \<times> string) list option \<Rightarrow> kwargs \<Rightarrow> sys
     \<Rightarrow> (exn + Response) \<times> sys" where
  "request e m p hs kw s =
     (case ensure_logged_in e s of
        (Inl x, s1) \<Rightarrow> (Inl x, s1)
      | (Inr u, s1) \<Rightarrow>
          (case http_request e m p (final_headers hs) kw s1 of
             (Inl x, s2) \<Rightarrow> (Inl x, s2)
           | (Inr resp, s2) \<Rightarrow>
               if status_code resp \<ge> 400 then
                 (Inl (WebtopRequestError
                         (m @ '' '' @ p @ '' failed ('' @ str_int (status_code resp) @ ''): '' @
                          resp_text resp)),
                  s2)
               else (Inr resp, s2)))"

section \<open>Endpoints\<close>

text \<open>
  Every wrapper ends with \<^verbatim>\<open>return resp.json()\<close>: an exception of \<^verbatim>\<open>request\<close> passes
  through, and so does one raised by decoding the body.
\<close>

definition return_json :: "(exn + Response) \<times> sys \<Rightarrow> (exn + pyval) \<times> sys" where
  "return_json r = (case r of (Inl x, s1) \<Rightarrow> (Inl x, s1) | (Inr resp, s1) \<Rightarrow> (json resp, s1))"

definition get_students :: "env \<Rightarrow> sys \<Rightarrow> (exn + pyval) \<times> sys" where
  "get_students e s =
     return_json (request e ''POST'' ''/server/api/dashboard/InitDashboard'' None
                    (json_only (PDict [])) s)"

definition get_homework :: "env \<Rightarrow> string \<Rightarrow> int \<Rightarrow> int \<Rightarrow> sys \<Rightarrow> (exn + pyval) \<times> sys" where
  "get_homework e encrypted_student_id class_code class_number s =
     return_json (request e ''POST'' ''/server/api/dashboard/GetHomeWork'' None
                    (json_only (PDict [(''id'', PStr encrypted_student_id),
                                       (''ClassCode'', PInt class_code),
                                       (''ClassNumber'', PInt class_number)])) s)"

definition get_discipline_events :: "env \<Rightarrow> string \<Rightarrow> int \<Rightarrow> sys \<Rightarrow> (exn + pyval) \<times> sys" where
  "get_discipline_events e encrypted_student_id class_code s =
     return_json (request e ''POST'' ''/server/api/dashboard/GetPupilDiciplineEvents'' None
                    (json_only (PDict [(''id'', PStr encrypted_student_id),
                                       (''ClassCode'', PInt class_code)])) s)"

definition get_preview_unread_notifications :: "env \<Rightarrow> sys \<Rightarrow> (exn + pyval) \<times> sys" where
  "get_preview_unread_notifications e s =
     return_json (request e ''POST'' ''/server/api/Menu/GetPreviewUnreadNotifications'' None
                    (json_only (PDict [])) s)"

definition get_notification_settings :: "env \<Rightarrow> string \<Rightarrow> sys \<Rightarrow> (exn + pyval) \<times> sys" where
  "get_notification_settings e encrypted_student_id s =
     return_json (request e ''POST'' ''/server/api/Notification/GetNotificationsSettings'' None
                    (json_only (PDict [(''id'', PStr encrypted_student_id)])) s)"

text \<open>
  The keyword arguments of \<^verbatim>\<open>get_messages_inbox\<close> all have defaults: \<open>None\<close> is an
  argument left out. \<^verbatim>\<open>has_read\<close> is itself an optional bool, so leaving it out and
  passing Python's \<^verbatim>\<open>None\<close> come to the same.
\<close>

definition opt_bool :: "bool option \<Rightarrow> pyval" where
  "opt_bool b = (case b of None \<Rightarrow> PNone | Some x \<Rightarrow> PBool x)"

definition get_messages_inbox ::
  "env \<Rightarrow> int option \<Rightarrow> int option \<Rightarrow> bool option option \<Rightarrow> string option \<Rightarrow> sys
     \<Rightarrow> (exn + pyval) \<times> sys" where
  "get_messages_inbox e page_id label_id has_read search_query s =
     return_json
       (request e ''POST'' ''/server/api/messageBox/GetMessagesInbox'' None
          (json_only
             (PDict [(''PageId'', PInt (case page_id of None \<Rightarrow> 1 | Some i \<Rightarrow> i)),
                     (''LabelId'', PInt (case label_id of None \<Rightarrow> 0 | Some i \<Rightarrow> i)),
                     (''HasRead'', opt_bool (case has_read of None \<Rightarrow> None | Some b \<Rightarrow> b)),
                     (''SearchQuery'',
                      PStr (case search_query of None \<Rightarrow> [] | Some q \<Rightarrow> q))])) s)"

definition get_pupil_schedule ::
  "env \<Rightarrow> int option \<Rightarrow> int option \<Rightarrow> int \<Rightarrow> string \<Rightarrow> int \<Rightarrow> int option \<Rightarrow> sys
     \<Rightarrow> (exn + pyval) \<times> sys" where
  "get_pupil_schedule e week_index view_type study_year encrypted_student_id class_code
       module_id s =
     return_json
       (request e ''POST'' ''/server/api/PupilCard/GetPupilScheduale'' None
          (json_only
             (PDict [(''weekIndex'', PInt (case week_index of None \<Rightarrow> 0 | Some i \<Rightarrow> i)),
                     (''viewType'', PInt (case view_type of None \<Rightarrow> 0 | Some i \<Rightarrow> i)),
                     (''studyYear'', PInt study_year),
                     (''studentID'', PStr encrypted_student_id),
                     (''classCode'', PInt class_code),
                     (''moduleID'', PInt (case module_id of None \<Rightarrow> 10 | Some i \<Rightarrow> i))])) s)"

section \<open>Sequences of operations\<close>

text \<open>
  A caller's use of one client is a sequence of calls of its public methods. A call that
  raises leaves the state as the raise found it, and the caller may go on.
\<close>

datatype operation =
    Login
  | EnsureLoggedIn
  | Request string string "(string \<times> string) list option" kwargs
  | GetStudents
  | GetHomework string int int
  | GetDisciplineEvents string int
  | GetPreviewUnreadNotifications
  | GetNotificationSettings string
  | GetMessagesInbox "int option" "int option" "bool option option" "string option"
  | GetPupilSchedule "int option" "int option" int string int "int option"
  | Close

text \<open>What a call hands back, the methods having different return types.\<close>

datatype result = Nothing | ASession WebtopSession | AResponse Response | AValue pyval

definition returning :: "('a \<Rightarrow> result) \<Rightarrow> (exn + 'a) \<times> sys \<Rightarrow> (exn + result) \<times> sys" where
  "returning f r = (case r of (Inl x, s1) \<Rightarrow> (Inl x, s1) | (Inr v, s1) \<Rightarrow> (Inr (f v), s1))"

fun call :: "env \<Rightarrow> operation \<Rightarrow> sys \<Rightarrow> (exn + result) \<times> sys" where
  "call e Login s = returning ASession (login e s)"
| "call e EnsureLoggedIn s = returning (\<lambda>u. Nothing) (ensure_logged_in e s)"
| "call e (Request m p hs kw) s = returning AResponse (request e m p hs kw s)"
| "call e GetStudents s = returning AValue (get_students e s)"
| "call e (GetHomework i c n) s = returning AValue (get_homework e i c n s)"
| "call e (GetDisciplineEvents i c) s = returning AValue (get_discipline_events e i c s)"
| "call e GetPreviewUnreadNotifications s =
     returning AValue (get_preview_unread_notifications e s)"
| "call e (GetNotificationSettings i) s = returning AValue (get_notification_settings e i s)"
| "call e (GetMessagesInbox p l h q) s = returning AValue (get_messages_inbox e p l h q s)"
| "call e (GetPupilSchedule w v y i c m) s =
     returning AValue (get_pupil_schedule e w v y i c m s)"
| "call e Close s = (Inr Nothing, close s)"

text \<open>The state a call leaves behind, whether it returned or raised.\<close>

definition exec :: "env \<Rightarrow> operation \<Rightarrow> sys \<Rightarrow> sys" where
  "exec e x s = snd (call e x s)"

fun run :: "env \<Rightarrow> operation list \<Rightarrow> sys \<Rightarrow> sys" where
  "run e [] s = s"
| "run e (x # xs) s = run e xs (exec e x s)"

text \<open>A fresh client: nothing has been sent yet.\<close>

definition start :: "WebtopClient \<Rightarrow> sys" where
  "start c = \<lparr>client = c, wire = []\<rparr>"

section \<open>What the claims speak of\<close>

text \<open>
  The field \<open>k\<close> of a response's JSON body, and its \<^verbatim>\<open>data.token\<close>: Python's \<^verbatim>\<open>None\<close>
  where the body did not decode, is no object, or has no such key.
\<close>

definition response_field :: "Response \<Rightarrow> string \<Rightarrow> pyval" where
  "response_field r k =
     (case json r of
        Inl x \<Rightarrow> PNone
      | Inr body \<Rightarrow> (case get_method body of Inl x \<Rightarrow> PNone | Inr body_get \<Rightarrow> body_get k))"

definition response_token :: "Response \<Rightarrow> pyval" where
  "response_token r =
     (case get_method (response_field r ''data'') of
        Inl x \<Rightarrow> PNone
      | Inr data_get \<Rightarrow> data_get ''token'')"

text \<open>
  The responses on which a lookup of \<^verbatim>\<open>login()\<close> fails: the status is below 400, the
  body decodes, and either the body is no object, or its status is true and its \<^verbatim>\<open>data\<close>
  is truthy and no object. On every other response all the lookups that \<^verbatim>\<open>login()\<close>
  comes to are on objects.
\<close>

definition lookup_fails :: "Response \<Rightarrow> bool" where
  "lookup_fails r =
     (if status_code r \<ge> 400 then False
      else case json r of
             Inl x \<Rightarrow> False
           | Inr body \<Rightarrow>
               (case get_method body of
                  Inl x \<Rightarrow> True
                | Inr body_get \<Rightarrow>
                    (if body_get ''status'' = PBool True then
                       (if truthy (body_get ''data'') then isl (get_method (body_get ''data''))
                        else False)
                     else False)))"

text \<open>The configuration of a client, as the spec lists it.\<close>

definition configuration ::
  "WebtopClient \<Rightarrow> string \<times> string \<times> string \<times> bool \<times> string \<times> string \<times> pyfloat \<times> bool" where
  "configuration c =
     (username c, password c, data c, remember_me c, biometric_login c, base_url c,
      timeout (http c), auto_login c)"

text \<open>A client with its session and its cookie jar blanked: all that is left is fixed.\<close>

definition fixed_part :: "WebtopClient \<Rightarrow> WebtopClient" where
  "fixed_part c =
     c\<lparr>http := (http c)\<lparr>cookies := [], server_cookies := []\<rparr>, session := None\<rparr>"

text \<open>
  A client without the cookies that responses have filed: what is left is what the
  client's own code has written.
\<close>

definition own_part :: "WebtopClient \<Rightarrow> WebtopClient" where
  "own_part c = c\<lparr>http := (http c)\<lparr>server_cookies := []\<rparr>\<rparr>"

text \<open>
  \<open>logs_in c c'\<close>: apart from cookies that responses have filed, the client \<open>c'\<close> is
  \<open>c\<close> after a successful login, that is with a session whose token is truthy and with
  that token in the jar as \<^verbatim>\<open>webToken\<close>.
\<close>

definition logs_in :: "WebtopClient \<Rightarrow> WebtopClient \<Rightarrow> bool" where
  "logs_in c c' =
     (\<exists>sess. truthy (token sess) \<and>
        own_part c' =
          own_part (c\<lparr>http := cookies_set ''webToken'' (token sess) (http c),
                       session := Some sess\<rparr>))"

text \<open>
  A call that brings its own \<^verbatim>\<open>webToken\<close>: a \<^verbatim>\<open>request\<close> with a \<^verbatim>\<open>Cookie\<close> header, or
  with a \<^verbatim>\<open>cookies=\<close> argument that names \<^verbatim>\<open>webToken\<close>. The endpoint wrappers pass
  neither.
\<close>

fun own_cookie :: "operation \<Rightarrow> bool" where
  "own_cookie (Request m p hs kw) =
     (has_cookie_header (final_headers hs) \<or>
      (case kw_cookies kw of None \<Rightarrow> False | Some d \<Rightarrow> map_of d ''webToken'' \<noteq> None))"
| "own_cookie x = False"

section \<open>Scenarios\<close>

text \<open>
  A portal that answers the login call with one fixed response and every other call with
  another, and a client built with the defaults.
\<close>

definition LOGIN_PATH :: string where
  "LOGIN_PATH = ''/server/api/user/LoginByUserNameAndPassword''"

definition portal :: "Response \<Rightarrow> Response \<Rightarrow> env" where
  "portal on_login on_other =
     \<lparr>server = (\<lambda>sent rq. if req_path rq = LOGIN_PATH then Inr on_login else Inr on_other),
      repr = type_name\<rparr>"

definition json_response :: "int \<Rightarrow> string \<Rightarrow> pyval \<Rightarrow> Response" where
  "json_response code txt v =
     \<lparr>status_code = code, resp_text = txt, json = Inr v, set_cookies = []\<rparr>"

definition jane :: pyval where
  "jane = PDict [(''token'', PStr ''T1''), (''userId'', PStr ''U1''),
                 (''firstName'', PStr ''Jane''), (''lastName'', PStr ''Doe'')]"

definition login_ok :: Response where
  "login_ok = json_response 200 ''...'' (PDict [(''status'', PBool True), (''data'', jane)])"

definition empty_ok :: Response where
  "empty_ok = json_response 200 ''{}'' (PDict [])"

definition not_found :: Response where
  "not_found =
     \<lparr>status_code = 404, resp_text = ''Not Found'',
      json = Inl (JSONDecodeError ''Expecting value: line 1 column 1 (char 0)''),
      set_cookies = []\<rparr>"

text \<open>A refusal that sets a cookie named \<^verbatim>\<open>webToken\<close> of the portal's own.\<close>

definition unauthorized :: Response where
  "unauthorized =
     \<lparr>status_code = 401, resp_text = ''Unauthorized'',
      json = Inl (JSONDecodeError ''Expecting value: line 1 column 1 (char 0)''),
      set_cookies = [((''webtopserver.smartschool.co.il'', ''/'', ''webToken''), Some ''EVIL'')]\<rparr>"

definition multiple_choices :: Response where
  "multiple_choices =
     json_response 300 ''...'' (PDict [(''status'', PBool True), (''data'', jane)])"

definition data_is_list :: Response where
  "data_is_list =
     json_response 200 ''...'' (PDict [(''status'', PBool True), (''data'', PList [PInt 1])])"

definition token_is_number :: Response where
  "token_is_number =
     json_response 200 ''...''
       (PDict [(''status'', PBool True), (''data'', PDict [(''token'', PInt 5)])])"

definition token_missing :: Response where
  "token_missing =
     json_response 200 ''...''
       (PDict [(''status'', PBool True), (''data'', PDict [(''userId'', PStr ''U1'')])])"

definition token_empty :: Response where
  "token_empty =
     json_response 200 ''...''
       (PDict [(''status'', PBool True), (''data'', PDict [(''token'', PStr [])])])"

definition error_with_list :: Response where
  "error_with_list = json_response 500 ''...'' (PList [PInt 1])"

definition parent :: WebtopClient where
  "parent = init ''user'' ''secret'' None None None None None None"

section \<open>How each operation changes the state\<close>

lemma snd_returning: "snd (returning f r) = snd r"
  by (simp add: returning_def split: prod.splits sum.splits)

lemma exec_simps [simp]:
  "exec e Login s = snd (login e s)"
  "exec e EnsureLoggedIn s = snd (ensure_logged_in e s)"
  "exec e (Request m p hs kw) s = snd (request e m p hs kw s)"
  "exec e GetStudents s = snd (get_students e s)"
  "exec e (GetHomework i c n) s = snd (get_homework e i c n s)"
  "exec e (GetDisciplineEvents i c) s = snd (get_discipline_events e i c s)"
  "exec e GetPreviewUnreadNotifications s = snd (get_preview_unread_notifications e s)"
  "exec e (GetNotificationSettings i) s = snd (get_notification_settings e i s)"
  "exec e (GetMessagesInbox pg l h q) s = snd (get_messages_inbox e pg l h q s)"
  "exec e (GetPupilSchedule w v y i c k) s = snd (get_pupil_schedule e w v y i c k s)"
  "exec e Close s = close s"
  by (simp_all add: exec_def snd_returning)

lemma snd_return_json: "snd (return_json r) = snd r"
  by (simp add: return_json_def split: prod.splits sum.splits)

lemma own_part_simps [simp]:
  "session (own_part c) = session c"
  "cookies (http (own_part c)) = cookies (http c)"
  "headers (http (own_part c)) = headers (http c)"
  "is_closed (http (own_part c)) = is_closed (http c)"
  "auto_login (own_part c) = auto_login c"
  "configuration (own_part c) = configuration c"
  "fixed_part (own_part c) = fixed_part c"
  "own_part (own_part c) = own_part c"
  by (simp_all add: own_part_def configuration_def fixed_part_def)

lemma own_part_extract [simp]:
  "own_part (c\<lparr>http := extract_cookies r (http c)\<rparr>) = own_part c"
  by (simp add: own_part_def extract_cookies_def)

lemma own_part_eqD:
  assumes "own_part c' = own_part c"
  shows "session c' = session c" and "cookies (http c') = cookies (http c)"
    and "headers (http c') = headers (http c)" and "is_closed (http c') = is_closed (http c)"
    and "auto_login c' = auto_login c"
    and "configuration c' = configuration c" and "fixed_part c' = fixed_part c"
  using assms own_part_simps by metis+

lemma own_part_login:
  assumes "own_part c1 = own_part c"
  shows "own_part (c1\<lparr>http := cookies_set n v (http c1), session := x\<rparr>) =
         own_part (c\<lparr>http := cookies_set n v (http c), session := x\<rparr>)"
proof -
  have "own_part (c1\<lparr>http := cookies_set n v (http c1), session := x\<rparr>) =
        (own_part c1)\<lparr>http := cookies_set n v (http (own_part c1)), session := x\<rparr>" for c1
    by (simp add: own_part_def cookies_set_def)
  then show ?thesis using assms by simp
qed

lemma http_request_own: "own_part (client (snd (http_request e m p hs kw s))) = own_part (client s)"
  by (simp add: http_request_def split: sum.splits)

lemma http_request_wire:
  "wire (snd (http_request e m p hs kw s)) =
     (case build_request (http (client s)) m p hs kw of
        Inl x \<Rightarrow> wire s
      | Inr rq \<Rightarrow> if is_closed (http (client s)) then wire s else wire s @ [rq])"
  by (simp add: http_request_def split: sum.splits)

lemma http_request_Inr:
  assumes "fst (http_request e m p hs kw s) = Inr r"
  shows "\<exists>rq. build_request (http (client s)) m p hs kw = Inr rq \<and>
              \<not> is_closed (http (client s)) \<and> server e (wire s) rq = Inr r \<and>
              snd (http_request e m p hs kw s) =
                s\<lparr>client := (client s)\<lparr>http := extract_cookies r (http (client s))\<rparr>,
                  wire := wire s @ [rq]\<rparr>"
  using assms by (auto simp: http_request_def split: sum.splits if_splits)

lemma login_post_own: "own_part (client (snd (login_post e s))) = own_part (client s)"
  by (simp add: login_post_def http_request_own)

lemma login_wire: "wire (snd (login e s)) = wire (snd (login_post e s))"
  by (auto simp: login_def Let_def split: if_splits sum.splits prod.splits)

lemma login_Inl: "login e s = (Inl x, s1) \<Longrightarrow> s1 = snd (login_post e s)"
  by (auto simp: login_def Let_def split: if_splits sum.splits prod.splits)

lemma login_Inr:
  "login e s = (Inr sess, s1) \<Longrightarrow>
   client s1 =
     (client (snd (login_post e s)))
       \<lparr>http := cookies_set ''webToken'' (token sess) (http (client (snd (login_post e s)))),
        session := Some sess\<rparr> \<and>
   truthy (token sess)"
  by (auto simp: login_def Let_def split: if_splits sum.splits prod.splits)

lemma login_effect:
  "own_part (client (snd (login e s))) = own_part (client s) \<or>
   logs_in (client s) (client (snd (login e s)))"
proof (cases "login e s")
  case (Pair r s1)
  show ?thesis
  proof (cases r)
    case (Inl x)
    with Pair show ?thesis using login_Inl [of e s x s1] by (simp add: login_post_own)
  next
    case (Inr sess)
    with Pair login_Inr [of e s sess s1] own_part_login [OF login_post_own [of e s]]
    show ?thesis
      unfolding logs_in_def by auto
  qed
qed

lemma logs_in_own:
  "logs_in c c1 \<Longrightarrow> own_part c2 = own_part c1 \<Longrightarrow> logs_in c c2"
  by (auto simp: logs_in_def)

lemma ensure_logged_in_present:
  "session (client s) = Some x \<Longrightarrow> ensure_logged_in e s = (Inr (), s)"
  by (simp add: ensure_logged_in_def)

lemma ensure_logged_in_snd:
  "snd (ensure_logged_in e s) =
     (if session (client s) \<noteq> None \<or> \<not> auto_login (client s) then s else snd (login e s))"
  by (simp add: ensure_logged_in_def split: prod.splits sum.splits)

lemma ensure_logged_in_effect:
  "own_part (client (snd (ensure_logged_in e s))) = own_part (client s) \<or>
   logs_in (client s) (client (snd (ensure_logged_in e s)))"
  using login_effect [of e s] by (simp add: ensure_logged_in_snd)

lemma request_snd:
  "snd (request e m p hs kw s) =
     (case ensure_logged_in e s of
        (Inl x, s1) \<Rightarrow> s1
      | (Inr u, s1) \<Rightarrow> snd (http_request e m p (final_headers hs) kw s1))"
  by (simp add: request_def split: prod.splits sum.splits)

lemma request_own:
  "own_part (client (snd (request e m p hs kw s))) =
   own_part (client (snd (ensure_logged_in e s)))"
  by (simp add: request_snd http_request_own split: prod.splits sum.splits)

lemma request_present:
  "session (client s) = Some x \<Longrightarrow>
   snd (request e m p hs kw s) = snd (http_request e m p (final_headers hs) kw s)"
  by (simp add: request_def ensure_logged_in_present split: prod.splits sum.splits)

lemma request_effect:
  "own_part (client (snd (request e m p hs kw s))) = own_part (client s) \<or>
   logs_in (client s) (client (snd (request e m p hs kw s)))"
  using ensure_logged_in_effect [of e s] request_own [of e m p hs kw s]
    logs_in_own [of "client s" "client (snd (ensure_logged_in e s))"
      "client (snd (request e m p hs kw s))"]
  by auto

lemma exec_as_request:
  "op \<noteq> Login \<Longrightarrow> op \<noteq> EnsureLoggedIn \<Longrightarrow> op \<noteq> Close \<Longrightarrow>
   \<exists>m p hs kw. \<forall>s. exec e op s = snd (request e m p hs kw s)"
  by (cases op)
     (auto simp: snd_return_json get_students_def get_homework_def get_discipline_events_def
        get_preview_unread_notifications_def get_notification_settings_def
        get_messages_inbox_def get_pupil_schedule_def)

lemma exec_effect:
  "op \<noteq> Close \<Longrightarrow>
   own_part (client (exec e op s)) = own_part (client s) \<or>
   logs_in (client s) (client (exec e op s))"
proof (cases "op = Login \<or> op = EnsureLoggedIn")
  case True
  then show ?thesis
    using login_effect [of e s] ensure_logged_in_effect [of e s] by auto
next
  case False
  assume "op \<noteq> Close"
  with False obtain m p hs kw where "\<forall>s. exec e op s = snd (request e m p hs kw s)"
    using exec_as_request [of op e] by auto
  then show ?thesis using request_effect [of e m p hs kw s] by simp
qed

lemma logs_in_session: "logs_in c c' \<Longrightarrow> \<exists>x. session c' = Some x \<and> truthy (token x)"
proof -
  assume "logs_in c c'"
  then obtain sess where t: "truthy (token sess)"
    and "own_part c' =
          own_part (c\<lparr>http := cookies_set ''webToken'' (token sess) (http c),
                       session := Some sess\<rparr>)"
    by (auto simp: logs_in_def)
  from own_part_eqD(1) [OF this(2)] have "session c' = Some sess" by simp
  with t show ?thesis by simp
qed

lemma logs_in_configuration: "logs_in c c' \<Longrightarrow> configuration c' = configuration c"
proof -
  assume "logs_in c c'"
  then obtain sess where
    "own_part c' =
          own_part (c\<lparr>http := cookies_set ''webToken'' (token sess) (http c),
                       session := Some sess\<rparr>)"
    by (auto simp: logs_in_def)
  from own_part_eqD(6) [OF this] show ?thesis
    by (simp add: configuration_def cookies_set_def)
qed

lemma logs_in_fixed_part: "logs_in c c' \<Longrightarrow> fixed_part c' = fixed_part c"
proof -
  assume "logs_in c c'"
  then obtain sess where
    "own_part c' =
          own_part (c\<lparr>http := cookies_set ''webToken'' (token sess) (http c),
                       session := Some sess\<rparr>)"
    by (auto simp: logs_in_def)
  from own_part_eqD(7) [OF this] show ?thesis
    by (simp add: fixed_part_def cookies_set_def)
qed

lemma logs_in_jar:
  "logs_in c c' \<Longrightarrow>
   \<exists>x. session c' = Some x \<and> cookies (http c') = AList.update ''webToken'' (token x) (cookies (http c))"
proof -
  assume "logs_in c c'"
  then obtain sess where eq:
    "own_part c' =
          own_part (c\<lparr>http := cookies_set ''webToken'' (token sess) (http c),
                       session := Some sess\<rparr>)"
    by (auto simp: logs_in_def)
  from own_part_eqD(1) [OF eq] own_part_eqD(2) [OF eq] show ?thesis
    by (simp add: cookies_set_def)
qed

text \<open>What every operation, and so every run, preserves.\<close>

lemma exec_session:
  "session (client (exec e op s)) = session (client s) \<or>
   (\<exists>x. session (client (exec e op s)) = Some x \<and> truthy (token x))"
proof (cases "op = Close")
  case True
  then show ?thesis by (simp add: close_def)
next
  case False
  then show ?thesis
    using exec_effect [of op e s] logs_in_session [of "client s" "client (exec e op s)"]
      own_part_eqD(1) [of "client (exec e op s)" "client s"]
    by auto
qed

lemma exec_configuration: "configuration (client (exec e op s)) = configuration (client s)"
proof (cases "op = Close")
  case True
  then show ?thesis by (simp add: close_def configuration_def)
next
  case False
  then show ?thesis
    using exec_effect [of op e s] logs_in_configuration [of "client s" "client (exec e op s)"]
      own_part_eqD(6) [of "client (exec e op s)" "client s"]
    by auto
qed

lemma exec_fixed_part:
  "op \<noteq> Close \<Longrightarrow> fixed_part (client (exec e op s)) = fixed_part (client s)"
  using exec_effect [of op e s] logs_in_fixed_part [of "client s" "client (exec e op s)"]
    own_part_eqD(7) [of "client (exec e op s)" "client s"]
  by auto

lemma run_configuration: "configuration (client (run e ops s)) = configuration (client s)"
  by (induction ops arbitrary: s) (simp_all add: exec_configuration)

lemma run_fixed_part:
  "Close \<notin> set ops \<Longrightarrow> fixed_part (client (run e ops s)) = fixed_part (client s)"
  by (induction ops arbitrary: s) (auto simp: exec_fixed_part)

lemma run_session_present:
  "session (client s) \<noteq> None \<Longrightarrow> session (client (run e ops s)) \<noteq> None"
proof (induction ops arbitrary: s)
  case Nil
  then show ?case by simp
next
  case (Cons op ops)
  from Cons.prems exec_session [of e op s] have "session (client (exec e op s)) \<noteq> None"
    by auto
  then show ?case using Cons.IH by simp
qed

lemma run_token_truthy:
  "\<forall>x. session (client s) = Some x \<longrightarrow> truthy (token x) \<Longrightarrow>
   \<forall>y. session (client (run e ops s)) = Some y \<longrightarrow> truthy (token y)"
proof (induction ops arbitrary: s)
  case Nil
  then show ?case by simp
next
  case (Cons op ops)
  have "\<forall>x. session (client (exec e op s)) = Some x \<longrightarrow> truthy (token x)"
    using Cons.prems exec_session [of e op s] by auto
  then have "\<forall>y. session (client (run e ops (exec e op s))) = Some y \<longrightarrow> truthy (token y)"
    by (rule Cons.IH)
  then show ?case by simp
qed

text \<open>The branches of \<^verbatim>\<open>login()\<close>, once the portal has answered.\<close>

lemma login_http_error:
  assumes "fst (login_post e s) = Inr r"
    and "status_code r \<ge> 400"
  shows "login e s =
           (Inl (WebtopLoginError
                   (''Login failed ('' @ str_int (status_code r) @ ''): '' @ resp_text r)),
            snd (login_post e s))"
  using assms by (cases "login_post e s") (simp add: login_def)

lemma login_not_json:
  assumes "fst (login_post e s) = Inr r"
    and "status_code r < 400" and "json r = Inl x"
  shows "login e s =
           (Inl (WebtopLoginError (''Login response is not JSON: '' @ exn_str x)),
            snd (login_post e s))"
  using assms by (cases "login_post e s") (simp add: login_def)

lemma login_body_no_get:
  assumes "fst (login_post e s) = Inr r"
    and "status_code r < 400" and "json r = Inr body" and "get_method body = Inl x"
  shows "login e s = (Inl x, snd (login_post e s))"
  using assms by (cases "login_post e s") (simp add: login_def)

lemma login_status_not_true:
  assumes "fst (login_post e s) = Inr r"
    and "status_code r < 400" and "json r = Inr (PDict b)"
    and "dict_get b ''status'' \<noteq> PBool True"
  shows "login e s =
           (Inl (WebtopLoginError
                   (''Login returned status=false. '' @
                    ''errorDescription='' @ repr e (dict_get b ''errorDescription'') @
                    '', errorId='' @ repr e (dict_get b ''errorId''))),
            snd (login_post e s))"
  using assms by (cases "login_post e s") (simp add: login_def)

lemma login_data_no_get:
  assumes "fst (login_post e s) = Inr r"
    and "status_code r < 400" and "json r = Inr (PDict b)"
    and "dict_get b ''status'' = PBool True"
    and "truthy (dict_get b ''data'')" and "get_method (dict_get b ''data'') = Inl x"
  shows "login e s = (Inl x, snd (login_post e s))"
  using assms by (cases "login_post e s") (simp add: login_def)

lemma login_data_falsy:
  assumes "fst (login_post e s) = Inr r"
    and "status_code r < 400" and "json r = Inr (PDict b)"
    and "dict_get b ''status'' = PBool True"
    and "\<not> truthy (dict_get b ''data'')"
  shows "login e s =
           (Inl (WebtopLoginError ''Login succeeded but data.token is missing''),
            snd (login_post e s))"
  using assms by (cases "login_post e s") (simp add: login_def dict_get_def)

lemma login_token_falsy:
  assumes "fst (login_post e s) = Inr r"
    and "status_code r < 400" and "json r = Inr (PDict b)"
    and "dict_get b ''status'' = PBool True"
    and "dict_get b ''data'' = PDict d" and "\<not> truthy (dict_get d ''token'')"
  shows "login e s =
           (Inl (WebtopLoginError ''Login succeeded but data.token is missing''),
            snd (login_post e s))"
  using assms by (cases "login_post e s"; cases "d = []") (simp_all add: login_def dict_get_def)

lemma login_token_truthy:
  assumes "fst (login_post e s) = Inr r"
    and "status_code r < 400" and "json r = Inr (PDict b)"
    and "dict_get b ''status'' = PBool True"
    and "dict_get b ''data'' = PDict d" and "truthy (dict_get d ''token'')"
  shows "login e s =
           (Inr \<lparr>token = dict_get d ''token'',
                 user_id = dict_get d ''userId'',
                 student_id = dict_get d ''studentId'',
                 school_id = dict_get d ''schoolId'',
                 school_name = dict_get d ''schoolName'',
                 first_name = dict_get d ''firstName'',
                 last_name = dict_get d ''lastName'',
                 raw_login_data = PDict d\<rparr>,
            (snd (login_post e s))
              \<lparr>client := (client (snd (login_post e s)))
                   \<lparr>http := cookies_set ''webToken'' (dict_get d ''token'')
                              (http (client (snd (login_post e s)))),
                    session := Some \<lparr>token = dict_get d ''token'',
                                     user_id = dict_get d ''userId'',
                                     student_id = dict_get d ''studentId'',
                                     school_id = dict_get d ''schoolId'',
                                     school_name = dict_get d ''schoolName'',
                                     first_name = dict_get d ''firstName'',
                                     last_name = dict_get d ''lastName'',
                                     raw_login_data = PDict d\<rparr>\<rparr>\<rparr>)"
proof -
  have "d \<noteq> []" using assms(6) by (auto simp: dict_get_def)
  then show ?thesis using assms by (cases "login_post e s") (simp add: login_def Let_def)
qed

text \<open>What the transport does with the login call.\<close>

lemma login_post_Inr:
  assumes "fst (login_post e s) = Inr r"
  shows "client (snd (login_post e s)) =
           (client s)\<lparr>http := extract_cookies r (http (client s))\<rparr>"
  using http_request_Inr [of e "''POST''" "''/server/api/user/LoginByUserNameAndPassword''" "[]"
      "json_only (login_body (client s))" s r] assms
  by (auto simp: login_post_def)

text \<open>Unfolding the scenarios and the operations on concrete inputs.\<close>

lemmas scenario_defs = portal_def login_ok_def empty_ok_def not_found_def json_response_def
  unauthorized_def multiple_choices_def data_is_list_def token_is_number_def
  token_missing_def token_empty_def error_with_list_def
  start_def parent_def init_def LOGIN_PATH_def jane_def DEFAULT_BASE_URL_def rstrip_slash_def
  Let_def

lemmas run_defs = login_def login_post_def http_request_def build_request_def json_only_def
  merge_cookies_def cookies_ok_def has_cookie_header_def extract_cookies_def file_cookie_def
  ensure_logged_in_def request_def return_json_def cookies_set_def dict_get_def login_body_def
  final_headers_def str_int_def str_nat.simps digit_char_def

section \<open>Claims\<close>

subsection \<open>A login that succeeds\<close>

text \<open>The cookies a request carries, looked up by name.\<close>

lemma map_of_rendered:
  "map_of (map (\<lambda>kv. (fst kv, the_str (snd kv))) jar) k = map_option the_str (map_of jar k)"
  by (induction jar) auto

lemma map_of_merge_cookies:
  "(case kc of None \<Rightarrow> True | Some d \<Rightarrow> map_of d k = None) \<Longrightarrow>
   map_of (merge_cookies jar kc) k = map_of jar k"
proof (cases kc)
  case None
  then show ?thesis by (simp add: merge_cookies_def)
next
  case (Some d)
  assume "case kc of None \<Rightarrow> True | Some d \<Rightarrow> map_of d k = None"
  with Some have "map_of d k = None" by simp
  then have "map_of (fold (\<lambda>kv acc. AList.update (fst kv) (PStr (snd kv)) acc) d jar) k =
             map_of jar k"
  proof (induction d arbitrary: jar)
    case Nil
    then show ?case by simp
  next
    case (Cons a d)
    from Cons.prems have "fst a \<noteq> k" and "map_of d k = None"
      by (auto split: if_splits)
    with Cons.IH [of "AList.update (fst a) (PStr (snd a)) jar"] show ?case
      by (simp add: update_conv')
  qed
  with Some show ?thesis by (simp add: merge_cookies_def)
qed

lemma build_request_token:
  assumes "build_request h m p hs kw = Inr rq"
    and "map_of (cookies h) ''webToken'' = Some (PStr t)"
    and "\<not> has_cookie_header (headers h)" and "\<not> has_cookie_header hs"
    and "case kw_cookies kw of None \<Rightarrow> True | Some d \<Rightarrow> map_of d ''webToken'' = None"
  shows "map_of (req_cookies rq) ''webToken'' = Some t"
proof -
  from assms(1,3,4)
  have "req_cookies rq =
          map (\<lambda>kv. (fst kv, the_str (snd kv))) (merge_cookies (cookies h) (kw_cookies kw))"
    by (auto simp: build_request_def Let_def split: if_splits)
  then show ?thesis
    using map_of_merge_cookies [OF assms(5), of "cookies h"] assms(2)
    by (simp add: map_of_rendered)
qed

text \<open>
  Once a session is there, no operation but \<^verbatim>\<open>login()\<close> touches the session or the
  cookies that the client's code has put in the jar, and a request that brings no cookie
  of its own carries the jar's \<^verbatim>\<open>webToken\<close>.
\<close>

lemma exec_request_form:
  assumes "op \<noteq> Login" "op \<noteq> EnsureLoggedIn" "op \<noteq> Close"
  shows "(\<exists>m p hs kw. op = Request m p hs kw) \<or>
         (\<not> own_cookie op \<and>
          (\<exists>p v. \<forall>s. exec e op s = snd (request e ''POST'' p None (json_only v) s)))"
  using assms
  by (cases op)
     (auto simp: snd_return_json get_students_def get_homework_def get_discipline_events_def
        get_preview_unread_notifications_def get_notification_settings_def
        get_messages_inbox_def get_pupil_schedule_def)

lemma exec_logged_in:
  assumes "session (client s) = Some x" and "op \<noteq> Login"
    and "map_of (cookies (http (client s))) ''webToken'' = Some (PStr t)"
    and "\<not> has_cookie_header (headers (http (client s)))"
    and "\<not> own_cookie op"
  shows "session (client (exec e op s)) = Some x \<and>
         cookies (http (client (exec e op s))) = cookies (http (client s)) \<and>
         headers (http (client (exec e op s))) = headers (http (client s)) \<and>
         (\<exists>new. wire (exec e op s) = wire s @ new \<and>
                (\<forall>rq \<in> set new. map_of (req_cookies rq) ''webToken'' = Some t))"
proof (cases "op = Close \<or> op = EnsureLoggedIn")
  case True
  then show ?thesis
    using assms(1) by (auto simp: close_def ensure_logged_in_present)
next
  case False
  with assms(2) exec_request_form [of op e]
  consider (req) m p hs kw where "op = Request m p hs kw"
    | (wrap) p v where "\<forall>s. exec e op s = snd (request e ''POST'' p None (json_only v) s)"
    by blast
  then obtain m p hs kw where ex: "exec e op s = snd (request e m p hs kw s)"
    and plain: "\<not> has_cookie_header (final_headers hs)"
      "case kw_cookies kw of None \<Rightarrow> True | Some d \<Rightarrow> map_of d ''webToken'' = None"
  proof cases
    case req
    with assms(5) that [of m p hs kw] show ?thesis
      by (auto split: option.splits)
  next
    case wrap
    with that [of "''POST''" p None "json_only v"] show ?thesis
      by (simp add: final_headers_def has_cookie_header_def json_only_def)
  qed
  from ex assms(1) have ex: "exec e op s = snd (http_request e m p (final_headers hs) kw s)"
    by (simp add: request_present)
  have "\<exists>new. wire (exec e op s) = wire s @ new \<and>
                (\<forall>rq \<in> set new. map_of (req_cookies rq) ''webToken'' = Some t)"
  proof (cases "build_request (http (client s)) m p (final_headers hs) kw")
    case (Inl y)
    then show ?thesis unfolding ex by (simp add: http_request_wire)
  next
    case (Inr rq)
    from build_request_token [OF Inr assms(3,4) plain]
    show ?thesis unfolding ex by (simp add: http_request_wire Inr)
  qed
  moreover have "own_part (client (exec e op s)) = own_part (client s)"
    unfolding ex by (rule http_request_own)
  ultimately show ?thesis using own_part_eqD(1,2,3) [of "client (exec e op s)" "client s"] assms(1)
    by simp
qed

lemma run_logged_in:
  assumes "session (client s) = Some x" and "Login \<notin> set ops"
    and "map_of (cookies (http (client s))) ''webToken'' = Some (PStr t)"
    and "\<not> has_cookie_header (headers (http (client s)))"
    and "\<not> list_ex own_cookie ops"
  shows "\<exists>new. wire (run e ops s) = wire s @ new \<and>
                (\<forall>rq \<in> set new. map_of (req_cookies rq) ''webToken'' = Some t)"
  using assms
proof (induction ops arbitrary: s)
  case Nil
  then show ?case by simp
next
  case (Cons op ops)
  from Cons.prems have ne: "op \<noteq> Login" and rest: "Login \<notin> set ops"
    and plain: "\<not> own_cookie op" and plains: "\<not> list_ex own_cookie ops"
    by auto
  from exec_logged_in [OF Cons.prems(1) ne Cons.prems(3,4) plain, of e]
  obtain new1 where s1: "session (client (exec e op s)) = Some x"
    and k1: "cookies (http (client (exec e op s))) = cookies (http (client s))"
    and h1: "headers (http (client (exec e op s))) = headers (http (client s))"
    and w1: "wire (exec e op s) = wire s @ new1"
    and q1: "\<forall>rq \<in> set new1. map_of (req_cookies rq) ''webToken'' = Some t"
    by blast
  from k1 h1 Cons.prems(3,4)
  have c1: "map_of (cookies (http (client (exec e op s)))) ''webToken'' = Some (PStr t)"
    and d1: "\<not> has_cookie_header (headers (http (client (exec e op s))))"
    by simp_all
  from Cons.IH [OF s1 rest c1 d1 plains]
  obtain new2 where w2: "wire (run e ops (exec e op s)) = wire (exec e op s) @ new2"
    and q2: "\<forall>rq \<in> set new2. map_of (req_cookies rq) ''webToken'' = Some t"
    by blast
  have "wire (run e (op # ops) s) = wire s @ (new1 @ new2)"
    using w1 w2 by simp
  moreover have "\<forall>rq \<in> set (new1 @ new2). map_of (req_cookies rq) ''webToken'' = Some t"
    using q1 q2 by auto
  ultimately show ?case by blast
qed

lemma exec_jar_matches:
  assumes "\<forall>x. session (client s) = Some x \<longrightarrow>
             map_of (cookies (http (client s))) ''webToken'' = Some (token x)"
  shows "\<forall>x. session (client (exec e op s)) = Some x \<longrightarrow>
             map_of (cookies (http (client (exec e op s)))) ''webToken'' = Some (token x)"
proof (cases "op = Close")
  case True
  with assms show ?thesis by (simp add: close_def)
next
  case False
  from exec_effect [OF False, of e s] show ?thesis
  proof
    assume "own_part (client (exec e op s)) = own_part (client s)"
    from own_part_eqD(1,2) [OF this] assms show ?thesis by simp
  next
    assume "logs_in (client s) (client (exec e op s))"
    from logs_in_jar [OF this] show ?thesis by (auto simp: update_conv')
  qed
qed

lemma run_jar_matches:
  "\<forall>x. session (client s) = Some x \<longrightarrow>
      map_of (cookies (http (client s))) ''webToken'' = Some (token x) \<Longrightarrow>
   \<forall>x. session (client (run e ops s)) = Some x \<longrightarrow>
      map_of (cookies (http (client (run e ops s)))) ''webToken'' = Some (token x)"
proof (induction ops arbitrary: s)
  case Nil
  then show ?case by simp
next
  case (Cons op ops)
  from Cons.prems have "\<forall>x. session (client (exec e op s)) = Some x \<longrightarrow>
             map_of (cookies (http (client (exec e op s)))) ''webToken'' = Some (token x)"
    by (rule exec_jar_matches)
  then have "\<forall>x. session (client (run e ops (exec e op s))) = Some x \<longrightarrow>
      map_of (cookies (http (client (run e ops (exec e op s))))) ''webToken'' = Some (token x)"
    by (rule Cons.IH)
  then show ?case by simp
qed

lemma exec_headers: "headers (http (client (exec e op s))) = headers (http (client s))"
proof (cases "op = Close")
  case True
  then show ?thesis by (simp add: close_def)
next
  case False
  from exec_effect [OF False, of e s] show ?thesis
  proof
    assume "own_part (client (exec e op s)) = own_part (client s)"
    from own_part_eqD(3) [OF this] show ?thesis .
  next
    assume "logs_in (client s) (client (exec e op s))"
    then obtain sess where
      "own_part (client (exec e op s)) =
         own_part ((client s)\<lparr>http := cookies_set ''webToken'' (token sess) (http (client s)),
                              session := Some sess\<rparr>)"
      by (auto simp: logs_in_def)
    from own_part_eqD(3) [OF this] show ?thesis by (simp add: cookies_set_def)
  qed
qed

lemma run_headers: "headers (http (client (run e ops s))) = headers (http (client s))"
  by (induction ops arbitrary: s) (simp_all add: exec_headers)

text \<open>
  C1, as the claim states it, has every later authenticated request carry the cookie
  \<^verbatim>\<open>webToken\<close> = \<open>T\<close>. The generic \<^verbatim>\<open>request\<close> hands the caller's headers to the
  transport, and the jar adds no cookie to a request that comes with a \<^verbatim>\<open>Cookie\<close>
  header of its own: after the login of Jane with token \<^verbatim>\<open>T1\<close>, such a request goes out
  without the jar's cookie.
\<close>

theorem own_cookie_header_wins:
  "map_of (cookies (http (client (snd (login (portal login_ok empty_ok) (start parent))))))
     ''webToken'' = Some (PStr ''T1'') \<and>
   wire (run (portal login_ok empty_ok)
           [Request ''POST'' ''/server/api/dashboard/InitDashboard''
              (Some [(''Cookie'', ''webToken=EVIL'')]) (json_only (PDict []))]
           (snd (login (portal login_ok empty_ok) (start parent)))) =
     wire (snd (login (portal login_ok empty_ok) (start parent))) @
     [\<lparr>req_method = ''POST'', req_path = ''/server/api/dashboard/InitDashboard'',
       req_headers = [(''Cookie'', ''webToken=EVIL'')], req_json = Some (PDict []),
       req_cookies = []\<rparr>]"
  by (simp add: scenario_defs run_defs dict_update_def)

text \<open>
  C1, amended. For a login response with HTTP status below 400 whose body is a JSON object
  with status literally true and a truthy (for a string: non-empty) \<^verbatim>\<open>data.token\<close>
  \<open>T\<close>, \<^verbatim>\<open>login()\<close> returns a session whose token is \<open>T\<close> and whose other fields are
  read from \<^verbatim>\<open>data\<close>; it stores that session in place of whatever session there was, and
  stores \<open>T\<close> in the jar as cookie \<^verbatim>\<open>webToken\<close>; the client is otherwise as the
  transport left it, that is as before but for the cookies the response itself set. From
  then on the jar's \<^verbatim>\<open>webToken\<close> is the token of the session in force, whatever
  operations follow. Take a client with no default \<^verbatim>\<open>Cookie\<close> header, and a request sent
  by an endpoint wrapper or by a \<^verbatim>\<open>request\<close> that brings no \<^verbatim>\<open>Cookie\<close> header and no
  \<^verbatim>\<open>webToken\<close> in \<^verbatim>\<open>cookies=\<close>: it carries as \<^verbatim>\<open>webToken\<close> the token of the session
  then in force, when that token is a string; before another \<^verbatim>\<open>login()\<close> that is
  \<open>T\<close>.
\<close>

theorem login_success:
  assumes "fst (login_post e s) = Inr r" and "status_code r < 400"
    and "json r = Inr (PDict b)" and "dict_get b ''status'' = PBool True"
    and "dict_get b ''data'' = PDict d" and "dict_get d ''token'' = T" and "truthy T"
  shows "\<exists>sess. fst (login e s) = Inr sess \<and>
           sess = \<lparr>token = T,
                   user_id = dict_get d ''userId'',
                   student_id = dict_get d ''studentId'',
                   school_id = dict_get d ''schoolId'',
                   school_name = dict_get d ''schoolName'',
                   first_name = dict_get d ''firstName'',
                   last_name = dict_get d ''lastName'',
                   raw_login_data = PDict d\<rparr> \<and>
           client (snd (login e s)) =
             (client s)\<lparr>http := cookies_set ''webToken'' T
                                  (extract_cookies r (http (client s))),
                        session := Some sess\<rparr> \<and>
           session (client (snd (login e s))) = Some sess \<and>
           map_of (cookies (http (client (snd (login e s))))) ''webToken'' = Some T \<and>
           (\<forall>e' ops x. session (client (run e' ops (snd (login e s)))) = Some x \<longrightarrow>
              map_of (cookies (http (client (run e' ops (snd (login e s)))))) ''webToken'' =
                Some (token x)) \<and>
           (\<forall>t e' ops.
              T = PStr t \<and> \<not> has_cookie_header (headers (http (client s))) \<and>
              Login \<notin> set ops \<and> \<not> list_ex own_cookie ops \<longrightarrow>
              (\<forall>rq \<in> set (drop (length (wire (snd (login e s))))
                               (wire (run e' ops (snd (login e s))))).
                 map_of (req_cookies rq) ''webToken'' = Some t)) \<and>
           (\<forall>t e' ops e'' op x.
              session (client (run e' ops (snd (login e s)))) = Some x \<and> token x = PStr t \<and>
              \<not> has_cookie_header (headers (http (client s))) \<and>
              op \<noteq> Login \<and> \<not> own_cookie op \<longrightarrow>
              (\<forall>rq \<in> set (drop (length (wire (run e' ops (snd (login e s)))))
                               (wire (exec e'' op (run e' ops (snd (login e s)))))).
                 map_of (req_cookies rq) ''webToken'' = Some t))"
proof -
  let ?sess = "\<lparr>token = T,
                   user_id = dict_get d ''userId'',
                   student_id = dict_get d ''studentId'',
                   school_id = dict_get d ''schoolId'',
                   school_name = dict_get d ''schoolName'',
                   first_name = dict_get d ''firstName'',
                   last_name = dict_get d ''lastName'',
                   raw_login_data = PDict d\<rparr>"
  let ?s2 = "snd (login e s)"
  from assms(6,7) have tok: "truthy (dict_get d ''token'')" by simp
  from login_token_truthy [OF assms(1-5) tok] assms(6) login_post_Inr [OF assms(1)]
  have result: "fst (login e s) = Inr ?sess"
    and after: "client ?s2 =
             (client s)\<lparr>http := cookies_set ''webToken'' T
                                  (extract_cookies r (http (client s))),
                        session := Some ?sess\<rparr>"
    by simp_all
  from after have sess: "session (client ?s2) = Some ?sess"
    and jar: "map_of (cookies (http (client ?s2))) ''webToken'' = Some T"
    and hdr: "headers (http (client ?s2)) = headers (http (client s))"
    by (simp_all add: cookies_set_def extract_cookies_def update_conv')
  have later: "\<forall>rq \<in> set (drop (length (wire ?s2)) (wire (run e' ops ?s2))).
                 map_of (req_cookies rq) ''webToken'' = Some t"
    if "T = PStr t" "\<not> has_cookie_header (headers (http (client s)))"
      "Login \<notin> set ops" "\<not> list_ex own_cookie ops" for t e' ops
  proof -
    from jar that(1) have j: "map_of (cookies (http (client ?s2))) ''webToken'' = Some (PStr t)"
      by simp
    from that(2) hdr have h: "\<not> has_cookie_header (headers (http (client ?s2)))"
      by simp
    from run_logged_in [OF sess that(3) j h that(4), of e']
    obtain new where "wire (run e' ops ?s2) = wire ?s2 @ new"
      and "\<forall>rq \<in> set new. map_of (req_cookies rq) ''webToken'' = Some t"
      by blast
    then show ?thesis by simp
  qed
  have always: "\<forall>x. session (client (run e' ops ?s2)) = Some x \<longrightarrow>
                  map_of (cookies (http (client (run e' ops ?s2)))) ''webToken'' =
                    Some (token x)"
    for e' ops
    by (rule run_jar_matches) (simp add: sess jar)
  have next_one: "\<forall>rq \<in> set (drop (length (wire (run e' ops ?s2)))
                               (wire (exec e'' op (run e' ops ?s2)))).
                 map_of (req_cookies rq) ''webToken'' = Some t"
    if "session (client (run e' ops ?s2)) = Some x" "token x = PStr t"
      "\<not> has_cookie_header (headers (http (client s)))" "op \<noteq> Login" "\<not> own_cookie op"
    for t e' ops e'' op x
  proof -
    from always [of e' ops] that(1,2)
    have j: "map_of (cookies (http (client (run e' ops ?s2)))) ''webToken'' = Some (PStr t)"
      by simp
    from that(3) hdr have h: "\<not> has_cookie_header (headers (http (client (run e' ops ?s2))))"
      by (simp add: run_headers)
    from exec_logged_in [OF that(1,4) j h that(5), of e'']
    obtain new where "wire (exec e'' op (run e' ops ?s2)) = wire (run e' ops ?s2) @ new"
      and "\<forall>rq \<in> set new. map_of (req_cookies rq) ''webToken'' = Some t"
      by blast
    then show ?thesis by simp
  qed
  from result after sess jar later always next_one show ?thesis by blast
qed

theorem login_success_witness:
  "fst (login_post (portal login_ok empty_ok) (start parent)) = Inr login_ok \<and>
   status_code login_ok < 400 \<and>
   json login_ok = Inr (PDict [(''status'', PBool True), (''data'', jane)]) \<and>
   jane = PDict [(''token'', PStr ''T1''), (''userId'', PStr ''U1''),
                 (''firstName'', PStr ''Jane''), (''lastName'', PStr ''Doe'')] \<and>
   truthy (PStr ''T1'') \<and>
   \<not> has_cookie_header (headers (http (client (start parent)))) \<and>
   \<not> list_ex own_cookie [GetStudents] \<and>
   map_sum id first_name (fst (login (portal login_ok empty_ok) (start parent))) =
     Inr (PStr ''Jane'') \<and>
   req_path (last (wire (run (portal login_ok empty_ok) [GetStudents]
                           (snd (login (portal login_ok empty_ok) (start parent)))))) =
     ''/server/api/dashboard/InitDashboard'' \<and>
   req_json (last (wire (run (portal login_ok empty_ok) [GetStudents]
                           (snd (login (portal login_ok empty_ok) (start parent)))))) =
     Some (PDict []) \<and>
   map_of (req_cookies (last (wire (run (portal login_ok empty_ok) [GetStudents]
                           (snd (login (portal login_ok empty_ok) (start parent)))))))
     ''webToken'' = Some ''T1''"
proof -
  let ?e = "portal login_ok empty_ok"
  let ?s2 = "snd (login ?e (start parent))"
  let ?b = "[(''status'', PBool True), (''data'', jane)]"
  let ?d = "[(''token'', PStr ''T1''), (''userId'', PStr ''U1''),
             (''firstName'', PStr ''Jane''), (''lastName'', PStr ''Doe'')]"
  have h1: "fst (login_post ?e (start parent)) = Inr login_ok"
    by (simp add: scenario_defs run_defs)
  have h2: "status_code login_ok < 400"
    by (simp add: scenario_defs)
  have h3: "json login_ok = Inr (PDict ?b)"
    by (simp add: login_ok_def json_response_def)
  have h4: "dict_get ?b ''status'' = PBool True"
    by (simp add: dict_get_def)
  have h5: "dict_get ?b ''data'' = PDict ?d"
    by (simp add: dict_get_def jane_def)
  have h6: "dict_get ?d ''token'' = PStr ''T1''"
    by (simp add: dict_get_def)
  have h7: "truthy (PStr ''T1'')"
    by simp
  have h8: "\<not> has_cookie_header (headers (http (client (start parent))))"
    by (simp add: scenario_defs has_cookie_header_def)
  have h9: "Login \<notin> set [GetStudents]" "\<not> list_ex own_cookie [GetStudents]"
    by simp_all
  from login_success [OF h1 h2 h3 h4 h5 h6 h7]
  obtain sess where r: "fst (login ?e (start parent)) = Inr sess"
    and f: "first_name sess = dict_get ?d ''firstName''"
    and l: "\<forall>t e' ops.
              PStr ''T1'' = PStr t \<and>
              \<not> has_cookie_header (headers (http (client (start parent)))) \<and>
              Login \<notin> set ops \<and> \<not> list_ex own_cookie ops \<longrightarrow>
              (\<forall>rq \<in> set (drop (length (wire ?s2)) (wire (run e' ops ?s2))).
                 map_of (req_cookies rq) ''webToken'' = Some t)"
    by auto
  from r f have name: "map_sum id first_name (fst (login ?e (start parent))) = Inr (PStr ''Jane'')"
    by (simp add: dict_get_def)
  from l h8 h9
  have all: "\<forall>rq \<in> set (drop (length (wire ?s2)) (wire (run ?e [GetStudents] ?s2))).
                 map_of (req_cookies rq) ''webToken'' = Some ''T1''"
    by blast
  have len: "length (wire ?s2) = 1" "length (wire (run ?e [GetStudents] ?s2)) = 2"
    by (simp_all add: scenario_defs run_defs get_students_def)
  then have "drop (length (wire ?s2)) (wire (run ?e [GetStudents] ?s2)) \<noteq> []"
    by simp
  then have "last (drop (length (wire ?s2)) (wire (run ?e [GetStudents] ?s2)))
               \<in> set (drop (length (wire ?s2)) (wire (run ?e [GetStudents] ?s2)))"
    by (rule last_in_set)
  moreover have "last (drop (length (wire ?s2)) (wire (run ?e [GetStudents] ?s2))) =
                 last (wire (run ?e [GetStudents] ?s2))"
    using len by simp
  ultimately have cookie:
    "map_of (req_cookies (last (wire (run ?e [GetStudents] ?s2)))) ''webToken'' = Some ''T1''"
    using all by metis
  have sent: "req_path (last (wire (run ?e [GetStudents] ?s2))) =
                ''/server/api/dashboard/InitDashboard''"
    "req_json (last (wire (run ?e [GetStudents] ?s2))) = Some (PDict [])"
    by (simp_all add: scenario_defs run_defs get_students_def)
  from h1 h2 h3 h7 h8 h9(2) name cookie sent show ?thesis
    by (simp add: jane_def)
qed

subsection \<open>When login fails\<close>

lemma falsy_has_no_token:
  "\<not> truthy v \<Longrightarrow>
   (case get_method v of Inl x \<Rightarrow> PNone | Inr data_get \<Rightarrow> data_get ''token'') = PNone"
  by (cases v) (simp_all add: dict_get_def)

lemma mentions_token: "sublist ''token'' ''Login succeeded but data.token is missing''"
  by code_simp

text \<open>
  C2, as the claim states it, leaves \<^verbatim>\<open>login()\<close> two outcomes, a
  \<^verbatim>\<open>WebtopLoginError\<close> or success. A response that is valid JSON with status true but
  whose \<^verbatim>\<open>data\<close> is a non-empty list has no token; the call neither succeeds nor raises
  \<^verbatim>\<open>WebtopLoginError\<close>: looking up \<^verbatim>\<open>data.get\<close> raises \<^verbatim>\<open>AttributeError\<close>.
\<close>

theorem login_crashes_on_list_data:
  "status_code data_is_list = 200 \<and>
   json data_is_list =
     Inr (PDict [(''status'', PBool True), (''data'', PList [PInt 1])]) \<and>
   fst (login (portal data_is_list empty_ok) (start parent)) = Inl (AttributeError ''list'' ''get'')"
  by (simp add: scenario_defs run_defs)

text \<open>
  The guard on the token is \<^verbatim>\<open>if not token\<close>: a token that is there but empty counts
  as missing.
\<close>

lemma login_rejects_empty_token:
  "response_field token_empty ''data'' = PDict [(''token'', PStr [])] \<and>
   fst (login (portal token_empty empty_ok) (start parent)) =
     Inl (WebtopLoginError ''Login succeeded but data.token is missing'')"
  by (simp add: scenario_defs run_defs response_field_def)

text \<open>On the responses set apart below, the call ends in the failed lookup.\<close>

lemma lookup_fails_raises:
  assumes "fst (login_post e s) = Inr r" and "lookup_fails r"
  shows "\<exists>t. fst (login e s) = Inl (AttributeError t ''get'')"
proof -
  from assms(2) have low: "status_code r < 400"
    by (simp add: lookup_fails_def split: if_splits)
  from assms(2) low obtain body where body: "json r = Inr body"
    by (cases "json r") (simp_all add: lookup_fails_def)
  show ?thesis
  proof (cases "get_method body")
    case (Inl x)
    then obtain t where "x = AttributeError t ''get''"
      by (cases body) auto
    with login_body_no_get [OF assms(1) low body Inl] show ?thesis by simp
  next
    case (Inr g)
    then obtain b where b: "body = PDict b" by (cases body) simp_all
    from assms(2) low body b have st: "dict_get b ''status'' = PBool True"
      and dt: "truthy (dict_get b ''data'')" and bad: "isl (get_method (dict_get b ''data''))"
      by (simp_all add: lookup_fails_def split: if_splits)
    from bad obtain x where x: "get_method (dict_get b ''data'') = Inl x"
      by (cases "get_method (dict_get b ''data'')") simp_all
    then obtain t where "x = AttributeError t ''get''"
      by (cases "dict_get b ''data''") auto
    with login_data_no_get [OF assms(1) low _ st dt x] body b show ?thesis by simp
  qed
qed

text \<open>
  C2, amended. Take any login response but those on which a lookup fails (status below
  400, decoded body, and the body no object or, under status true, a truthy \<^verbatim>\<open>data\<close> that
  is no object). Then \<^verbatim>\<open>login()\<close> raises \<^verbatim>\<open>WebtopLoginError\<close> exactly when the HTTP
  status is at least 400, or the body does not decode, or the status field is not literally
  true, or \<^verbatim>\<open>data.token\<close> is missing or falsy; and it succeeds exactly otherwise. A
  response with status false raises \<^verbatim>\<open>WebtopLoginError\<close> whatever the HTTP status, and
  the error for a missing token mentions \<^verbatim>\<open>token\<close>.
\<close>

theorem login_error_iff:
  assumes post: "fst (login_post e s) = Inr r"
  shows
    "(\<not> lookup_fails r \<longrightarrow>
        ((\<exists>m. fst (login e s) = Inl (WebtopLoginError m)) \<longleftrightarrow>
           (status_code r \<ge> 400 \<or> isl (json r) \<or> response_field r ''status'' \<noteq> PBool True \<or>
            \<not> truthy (response_token r))) \<and>
        ((\<exists>sess. fst (login e s) = Inr sess) \<longleftrightarrow>
           \<not> (status_code r \<ge> 400 \<or> isl (json r) \<or> response_field r ''status'' \<noteq> PBool True \<or>
              \<not> truthy (response_token r)))) \<and>
     (response_field r ''status'' = PBool False \<longrightarrow>
        (\<exists>m. fst (login e s) = Inl (WebtopLoginError m))) \<and>
     (\<not> lookup_fails r \<and> status_code r < 400 \<and> response_field r ''status'' = PBool True \<and>
      \<not> truthy (response_token r) \<longrightarrow>
        (\<exists>m. fst (login e s) = Inl (WebtopLoginError m) \<and> sublist ''token'' m))"
proof (cases "status_code r \<ge> 400")
  case True
  with post have "fst (login e s) =
      Inl (WebtopLoginError (''Login failed ('' @ str_int (status_code r) @ ''): '' @ resp_text r))"
    by (simp add: login_http_error)
  with True show ?thesis by simp
next
  case low: False
  show ?thesis
  proof (cases "json r")
    case (Inl x)
    with post low have "fst (login e s) =
        Inl (WebtopLoginError (''Login response is not JSON: '' @ exn_str x))"
      by (simp add: login_not_json)
    with Inl show ?thesis by (simp add: response_field_def)
  next
    case (Inr body)
    show ?thesis
    proof (cases "get_method body")
      case bad: (Inl x)
      with Inr low have "lookup_fails r" "response_field r ''status'' = PNone"
        by (simp_all add: lookup_fails_def response_field_def)
      then show ?thesis by simp
    next
      case ok: (Inr g)
      then obtain b where body: "body = PDict b" by (cases body) simp_all
      with Inr have jr: "json r = Inr (PDict b)" by simp
      have field: "response_field r k = dict_get b k" for k
        by (simp add: response_field_def jr)
      show ?thesis
      proof (cases "dict_get b ''status'' = PBool True")
        case False
        with post low jr have "\<exists>m. fst (login e s) = Inl (WebtopLoginError m)"
          by (simp add: login_status_not_true)
        with False jr show ?thesis by (auto simp: field)
      next
        case st: True
        show ?thesis
        proof (cases "truthy (dict_get b ''data'')")
          case False
          with post low jr st have "fst (login e s) =
              Inl (WebtopLoginError ''Login succeeded but data.token is missing'')"
            by (simp add: login_data_falsy)
          moreover from False have "response_token r = PNone"
            by (simp add: response_token_def field falsy_has_no_token)
          ultimately show ?thesis using mentions_token st by (auto simp: field)
        next
          case dt: True
          show ?thesis
          proof (cases "get_method (dict_get b ''data'')")
            case (Inl x)
            with dt jr st low have "lookup_fails r"
              by (simp add: lookup_fails_def)
            with st show ?thesis by (simp add: field)
          next
            case (Inr dg)
            then obtain d where d: "dict_get b ''data'' = PDict d"
              by (cases "dict_get b ''data''") simp_all
            then have tok: "response_token r = dict_get d ''token''"
              by (simp add: response_token_def field)
            show ?thesis
            proof (cases "truthy (dict_get d ''token'')")
              case False
              with post low jr st d have "fst (login e s) =
                  Inl (WebtopLoginError ''Login succeeded but data.token is missing'')"
                by (simp add: login_token_falsy)
              with False show ?thesis using mentions_token st jr low by (auto simp: field tok)
            next
              case True
              with post low jr st d have "\<exists>sess. fst (login e s) = Inr sess"
                by (simp add: login_token_truthy)
              with True show ?thesis using st jr low by (auto simp: field tok)
            qed
          qed
        qed
      qed
    qed
  qed
qed

theorem login_error_iff_witness:
  "fst (login_post (portal token_missing empty_ok) (start parent)) = Inr token_missing \<and>
   \<not> lookup_fails token_missing \<and> status_code token_missing < 400 \<and>
   response_field token_missing ''status'' = PBool True \<and>
   \<not> truthy (response_token token_missing) \<and>
   (\<exists>m. fst (login (portal token_missing empty_ok) (start parent)) = Inl (WebtopLoginError m) \<and>
        sublist ''token'' m) \<and>
   fst (login_post (portal login_ok empty_ok) (start parent)) = Inr login_ok \<and>
   \<not> lookup_fails login_ok \<and> response_token login_ok = PStr ''T1'' \<and>
   (\<exists>sess. fst (login (portal login_ok empty_ok) (start parent)) = Inr sess) \<and>
   fst (login_post (portal error_with_list empty_ok) (start parent)) = Inr error_with_list \<and>
   \<not> lookup_fails error_with_list \<and> status_code error_with_list \<ge> 400 \<and>
   (\<exists>m. fst (login (portal error_with_list empty_ok) (start parent)) =
          Inl (WebtopLoginError m))"
proof -
  have a1: "fst (login_post (portal token_missing empty_ok) (start parent)) = Inr token_missing"
    by (simp add: scenario_defs run_defs)
  have a2: "\<not> lookup_fails token_missing" "status_code token_missing < 400"
    "response_field token_missing ''status'' = PBool True"
    "\<not> truthy (response_token token_missing)"
    by (simp_all add: scenario_defs lookup_fails_def response_field_def response_token_def
        dict_get_def)
  have b1: "fst (login_post (portal login_ok empty_ok) (start parent)) = Inr login_ok"
    by (simp add: scenario_defs run_defs)
  have b2: "\<not> lookup_fails login_ok" "status_code login_ok < 400" "\<not> isl (json login_ok)"
    "response_field login_ok ''status'' = PBool True"
    "response_token login_ok = PStr ''T1''"
    by (simp_all add: scenario_defs lookup_fails_def response_field_def response_token_def
        dict_get_def)
  have a: "\<exists>m. fst (login (portal token_missing empty_ok) (start parent))
                 = Inl (WebtopLoginError m) \<and> sublist ''token'' m"
    using login_error_iff [OF a1] a2 by blast
  have b: "\<exists>sess. fst (login (portal login_ok empty_ok) (start parent)) = Inr sess"
    using login_error_iff [OF b1] b2 by simp
  have c1: "fst (login_post (portal error_with_list empty_ok) (start parent)) =
            Inr error_with_list"
    by (simp add: scenario_defs run_defs)
  have c2: "\<not> lookup_fails error_with_list" "status_code error_with_list \<ge> 400"
    by (simp_all add: scenario_defs lookup_fails_def)
  have c: "\<exists>m. fst (login (portal error_with_list empty_ok) (start parent)) =
          Inl (WebtopLoginError m)"
    using login_error_iff [OF c1] c2 by blast
  from a1 a2 a b1 b2 b c1 c2 c show ?thesis by blast
qed

subsection \<open>HTTP statuses that fail a login\<close>

lemma login_low_status:
  assumes "fst (login_post e s) = Inr r" and "status_code r < 400"
    and "fst (login_post e' s) = Inr r'" and "status_code r' < 400"
    and "json r' = json r" and "repr e' = repr e"
  shows "fst (login e' s) = fst (login e s)"
proof -
  obtain s1 where 1: "login_post e s = (Inr r, s1)"
    using assms(1) by (cases "login_post e s") simp
  obtain s1' where 2: "login_post e' s = (Inr r', s1')"
    using assms(3) by (cases "login_post e' s") simp
  show ?thesis
    using assms(2,4,5,6) by (simp add: login_def 1 2 Let_def split: sum.splits)
qed

text \<open>
  C3, as the claim states it, makes every status outside 2xx a failure. The test in
  \<^verbatim>\<open>login()\<close> is \<^verbatim>\<open>status_code >= 400\<close>: a 300 response with a good body logs in.
\<close>

theorem login_accepts_300:
  "status_code multiple_choices = 300 \<and>
   fst (login (portal multiple_choices empty_ok) (start parent)) =
     Inr \<lparr>token = PStr ''T1'', user_id = PStr ''U1'', student_id = PNone, school_id = PNone,
           school_name = PNone, first_name = PStr ''Jane'', last_name = PStr ''Doe'',
           raw_login_data = jane\<rparr>"
  by (simp add: scenario_defs run_defs)

text \<open>
  C3, amended. For every login response whose HTTP status is at least 400,
  \<^verbatim>\<open>login()\<close> raises \<^verbatim>\<open>WebtopLoginError\<close>, with the status code and the body text in
  its message. Below 400 the status plays no part: two responses with statuses below 400
  and the same body give the same outcome.
\<close>

theorem login_rejects_400_up:
  "(fst (login_post e s) = Inr r \<and> status_code r \<ge> 400 \<longrightarrow>
      login e s =
        (Inl (WebtopLoginError
                (''Login failed ('' @ str_int (status_code r) @ ''): '' @ resp_text r)),
         snd (login_post e s))) \<and>
   (fst (login_post e s) = Inr r \<and> status_code r < 400 \<and>
    fst (login_post e' s) = Inr r' \<and> status_code r' < 400 \<and>
    json r' = json r \<and> repr e' = repr e \<longrightarrow>
      fst (login e' s) = fst (login e s))"
  using login_http_error [of e s r] login_low_status [of e s r e' r'] by blast

theorem login_rejects_400_up_witness:
  "fst (login_post (portal not_found empty_ok) (start parent)) = Inr not_found \<and>
   status_code not_found \<ge> 400 \<and>
   fst (login (portal not_found empty_ok) (start parent)) =
     Inl (WebtopLoginError ''Login failed (404): Not Found'') \<and>
   fst (login_post (portal login_ok empty_ok) (start parent)) = Inr login_ok \<and>
   status_code login_ok < 400 \<and>
   fst (login_post (portal multiple_choices empty_ok) (start parent)) = Inr multiple_choices \<and>
   status_code multiple_choices < 400 \<and>
   json multiple_choices = json login_ok \<and>
   fst (login (portal multiple_choices empty_ok) (start parent)) =
     fst (login (portal login_ok empty_ok) (start parent))"
proof -
  have h1: "fst (login_post (portal not_found empty_ok) (start parent)) = Inr not_found"
    by (simp add: scenario_defs run_defs)
  have h2: "status_code not_found \<ge> 400"
    by (simp add: scenario_defs)
  have shown: "str_int (status_code not_found) = ''404''" "resp_text not_found = ''Not Found''"
    by (simp_all add: scenario_defs run_defs)
  from login_rejects_400_up [of "portal not_found empty_ok" "start parent" not_found] h1 h2 shown
  have a: "fst (login (portal not_found empty_ok) (start parent)) =
     Inl (WebtopLoginError ''Login failed (404): Not Found'')"
    by simp
  have g1: "fst (login_post (portal login_ok empty_ok) (start parent)) = Inr login_ok"
    "fst (login_post (portal multiple_choices empty_ok) (start parent)) = Inr multiple_choices"
    by (simp_all add: scenario_defs run_defs)
  have g2: "status_code login_ok < 400" "status_code multiple_choices < 400"
    "json multiple_choices = json login_ok"
    "repr (portal multiple_choices empty_ok) = repr (portal login_ok empty_ok)"
    by (simp_all add: scenario_defs)
  from login_rejects_400_up [of "portal login_ok empty_ok" "start parent" login_ok
      "portal multiple_choices empty_ok" multiple_choices] g1 g2
  have b: "fst (login (portal multiple_choices empty_ok) (start parent)) =
     fst (login (portal login_ok empty_ok) (start parent))"
    by blast
  from h1 h2 a g1 g2 b show ?thesis by blast
qed

subsection \<open>Making sure of a session\<close>

text \<open>
  C4. With a session, \<^verbatim>\<open>ensure_logged_in()\<close> returns at once: nothing is sent and the
  state is the same. Without a session and with auto-login off, it raises
  \<^verbatim>\<open>WebtopLoginError\<close>, again with nothing sent and the state the same. Without a session
  and with auto-login on, it is one \<^verbatim>\<open>login()\<close>: the state it leaves is the state that
  \<^verbatim>\<open>login()\<close> leaves, it raises what \<^verbatim>\<open>login()\<close> raises and returns when
  \<^verbatim>\<open>login()\<close> returns, and what it sends is the one login request (nothing, where that
  request cannot be built or the client is closed).
\<close>

theorem ensure_logged_in_cases:
  "(session (client s) \<noteq> None \<longrightarrow> ensure_logged_in e s = (Inr (), s)) \<and>
   (session (client s) = None \<and> \<not> auto_login (client s) \<longrightarrow>
      ensure_logged_in e s =
        (Inl (WebtopLoginError
                ''Not logged in and auto_login=False. Call await client.login().''), s)) \<and>
   (session (client s) = None \<and> auto_login (client s) \<longrightarrow>
      snd (ensure_logged_in e s) = snd (login e s) \<and>
      fst (ensure_logged_in e s) = map_sum id (\<lambda>sess. ()) (fst (login e s)) \<and>
      wire (snd (ensure_logged_in e s)) =
        (case build_request (http (client s)) ''POST''
                ''/server/api/user/LoginByUserNameAndPassword'' []
                (json_only (login_body (client s))) of
           Inl x \<Rightarrow> wire s
         | Inr rq \<Rightarrow> if is_closed (http (client s)) then wire s else wire s @ [rq]))"
proof -
  have "wire (snd (login e s)) =
        (case build_request (http (client s)) ''POST''
                ''/server/api/user/LoginByUserNameAndPassword'' []
                (json_only (login_body (client s))) of
           Inl x \<Rightarrow> wire s
         | Inr rq \<Rightarrow> if is_closed (http (client s)) then wire s else wire s @ [rq])"
    by (simp add: login_wire login_post_def http_request_wire)
  then show ?thesis
    by (auto simp: ensure_logged_in_def split: prod.splits sum.splits)
qed

theorem ensure_logged_in_cases_witness:
  "session (client (snd (login (portal login_ok empty_ok) (start parent)))) \<noteq> None \<and>
   ensure_logged_in (portal login_ok empty_ok) (snd (login (portal login_ok empty_ok) (start parent)))
     = (Inr (), snd (login (portal login_ok empty_ok) (start parent))) \<and>
   session (client (start (init ''user'' ''secret'' None None None None None (Some False)))) = None \<and>
   \<not> auto_login (client (start (init ''user'' ''secret'' None None None None None (Some False)))) \<and>
   ensure_logged_in (portal login_ok empty_ok)
       (start (init ''user'' ''secret'' None None None None None (Some False))) =
     (Inl (WebtopLoginError ''Not logged in and auto_login=False. Call await client.login().''),
      start (init ''user'' ''secret'' None None None None None (Some False))) \<and>
   session (client (start parent)) = None \<and> auto_login (client (start parent)) \<and>
   length (wire (snd (ensure_logged_in (portal login_ok empty_ok) (start parent)))) = 1 \<and>
   fst (ensure_logged_in (portal login_ok empty_ok) (start parent)) = Inr ()"
proof -
  let ?e = "portal login_ok empty_ok"
  let ?s = "snd (login ?e (start parent))"
  let ?t = "start (init ''user'' ''secret'' None None None None None (Some False))"
  have a: "session (client ?s) \<noteq> None"
    by (simp add: scenario_defs run_defs)
  have b: "session (client ?t) = None" "\<not> auto_login (client ?t)"
    by (simp_all add: scenario_defs)
  have c: "session (client (start parent)) = None" "auto_login (client (start parent))"
    by (simp_all add: scenario_defs)
  have d: "fst (login ?e (start parent)) =
     Inr \<lparr>token = PStr ''T1'', user_id = PStr ''U1'', student_id = PNone, school_id = PNone,
           school_name = PNone, first_name = PStr ''Jane'', last_name = PStr ''Doe'',
           raw_login_data = jane\<rparr>"
    by (simp add: scenario_defs run_defs)
  from ensure_logged_in_cases [of ?s ?e] a
  have 1: "ensure_logged_in ?e ?s = (Inr (), ?s)" by blast
  from ensure_logged_in_cases [of ?t ?e] b
  have 2: "ensure_logged_in ?e ?t =
     (Inl (WebtopLoginError ''Not logged in and auto_login=False. Call await client.login().''),
      ?t)" by blast
  from ensure_logged_in_cases [of "start parent" ?e] c
  have both:
    "fst (ensure_logged_in ?e (start parent)) = map_sum id (\<lambda>sess. ()) (fst (login ?e (start parent)))"
    "wire (snd (ensure_logged_in ?e (start parent))) =
        (case build_request (http (client (start parent))) ''POST''
                ''/server/api/user/LoginByUserNameAndPassword'' []
                (json_only (login_body (client (start parent)))) of
           Inl x \<Rightarrow> wire (start parent)
         | Inr rq \<Rightarrow> if is_closed (http (client (start parent))) then wire (start parent)
                     else wire (start parent) @ [rq])"
    by blast+
  have "length (case build_request (http (client (start parent))) ''POST''
                ''/server/api/user/LoginByUserNameAndPassword'' []
                (json_only (login_body (client (start parent)))) of
           Inl x \<Rightarrow> wire (start parent)
         | Inr rq \<Rightarrow> if is_closed (http (client (start parent))) then wire (start parent)
                     else wire (start parent) @ [rq]) = 1"
    by (simp add: scenario_defs run_defs)
  with both(2) have 3: "length (wire (snd (ensure_logged_in ?e (start parent)))) = 1"
    by (simp only:)
  from both(1) d have 4: "fst (ensure_logged_in ?e (start parent)) = Inr ()"
    by simp
  from a b c 1 2 3 4 show ?thesis by blast
qed

subsection \<open>A request the portal refuses\<close>

lemma request_via:
  assumes "ensure_logged_in e s = (Inr (), s1)"
  shows "request e m p hs kw s =
           (case fst (http_request e m p (final_headers hs) kw s1) of
              Inl x \<Rightarrow> Inl x
            | Inr r \<Rightarrow>
                if status_code r \<ge> 400 then
                  Inl (WebtopRequestError
                         (m @ '' '' @ p @ '' failed ('' @ str_int (status_code r) @ ''): '' @
                          resp_text r))
                else Inr r,
            snd (http_request e m p (final_headers hs) kw s1))"
  using assms by (simp add: request_def split: prod.splits sum.splits)

lemma http_request_sent:
  assumes "fst (http_request e m p hs kw s) = Inr r"
  shows "\<exists>rq. build_request (http (client s)) m p hs kw = Inr rq \<and>
              wire (snd (http_request e m p hs kw s)) = wire s @ [rq] \<and>
              req_method rq = m \<and> req_path rq = p \<and> req_headers rq = hs \<and>
              req_json rq = kw_json kw \<and> server e (wire s) rq = Inr r"
proof -
  from http_request_Inr [OF assms] obtain rq
    where b: "build_request (http (client s)) m p hs kw = Inr rq"
      and a: "server e (wire s) rq = Inr r"
      and w: "snd (http_request e m p hs kw s) =
                s\<lparr>client := (client s)\<lparr>http := extract_cookies r (http (client s))\<rparr>,
                  wire := wire s @ [rq]\<rparr>"
    by blast
  from b have "req_method rq = m \<and> req_path rq = p \<and> req_headers rq = hs \<and>
               req_json rq = kw_json kw"
    by (auto simp: build_request_def Let_def split: if_splits)
  with b a w show ?thesis by simp
qed

lemma http_request_at_most_one:
  "length (wire (snd (http_request e m p hs kw s))) \<le> length (wire s) + 1"
  by (simp add: http_request_wire split: sum.splits)

lemma call_as_request:
  assumes "op \<noteq> Login" "op \<noteq> EnsureLoggedIn" "op \<noteq> Close"
  shows "(\<exists>m p hs kw. op = Request m p hs kw) \<or>
         (\<exists>p v. \<forall>s. call e op s =
                    returning AValue
                      (return_json (request e ''POST'' p None (json_only v) s)))"
  using assms
  by (cases op)
     (auto simp: get_students_def get_homework_def get_discipline_events_def
        get_preview_unread_notifications_def get_notification_settings_def
        get_messages_inbox_def get_pupil_schedule_def)

text \<open>
  A token that is not text stays in the jar and stops every later request before it is
  sent: after a login that returned the number 5 as token, only the login request has
  gone on the wire.
\<close>

lemma non_text_cookie_blocks_requests:
  "fst (get_students (portal token_is_number empty_ok) (start parent)) = Inl (TypeError ''int'') \<and>
   length (wire (snd (get_students (portal token_is_number empty_ok) (start parent)))) = 1"
  by (simp add: scenario_defs run_defs get_students_def)

text \<open>
  C5. Take any authenticated call other than login: \<^verbatim>\<open>request\<close> itself or one of the
  endpoint wrappers, once \<^verbatim>\<open>ensure_logged_in\<close> has let it through. It is one call of the
  transport, with the method, path, headers and keyword arguments of the call (a wrapper:
  POST, no headers, no cookies of its own), and it leaves the state that the transport
  leaves; at most one request goes on the wire. What the transport raises, the call
  raises. If the transport returns a response, exactly one request has gone on the wire;
  with a status of 400 or more the call raises \<^verbatim>\<open>WebtopRequestError\<close> whose message holds
  the method, the path, the status code and the response text; with a status below 400
  \<^verbatim>\<open>request\<close> returns the response itself and a wrapper returns what \<^verbatim>\<open>resp.json()\<close>
  gives.
\<close>

theorem request_failure:
  assumes "op \<noteq> Login" "op \<noteq> EnsureLoggedIn" "op \<noteq> Close"
    and "ensure_logged_in e s = (Inr (), s1)"
  shows "\<exists>m p hs kw.
           (\<forall>m' p' hs' kw'. op = Request m' p' hs' kw' \<longrightarrow>
              m = m' \<and> p = p' \<and> hs = final_headers hs' \<and> kw = kw') \<and>
           ((\<forall>m' p' hs' kw'. op \<noteq> Request m' p' hs' kw') \<longrightarrow>
              m = ''POST'' \<and> hs = [] \<and> kw_cookies kw = None) \<and>
           snd (call e op s) = snd (http_request e m p hs kw s1) \<and>
           length (wire (snd (call e op s))) \<le> length (wire s1) + 1 \<and>
           (\<forall>x. fst (http_request e m p hs kw s1) = Inl x \<longrightarrow> fst (call e op s) = Inl x) \<and>
           (\<forall>r. fst (http_request e m p hs kw s1) = Inr r \<longrightarrow>
              (\<exists>rq. build_request (http (client s1)) m p hs kw = Inr rq \<and>
                    wire (snd (call e op s)) = wire s1 @ [rq] \<and>
                    req_method rq = m \<and> req_path rq = p) \<and>
              (status_code r \<ge> 400 \<longrightarrow>
                 fst (call e op s) =
                   Inl (WebtopRequestError
                          (m @ '' '' @ p @ '' failed ('' @ str_int (status_code r) @ ''): '' @
                           resp_text r))) \<and>
              (status_code r < 400 \<longrightarrow>
                 (\<forall>m' p' hs' kw'. op = Request m' p' hs' kw' \<longrightarrow>
                    fst (call e op s) = Inr (AResponse r)) \<and>
                 ((\<forall>m' p' hs' kw'. op \<noteq> Request m' p' hs' kw') \<longrightarrow>
                    fst (call e op s) = map_sum id AValue (json r))))"
proof -
  from call_as_request [OF assms(1-3), of e]
  consider (req) m p hs kw where "op = Request m p hs kw"
    | (wrap) p v where
        "\<forall>s. call e op s =
              returning AValue (return_json (request e ''POST'' p None (json_only v) s))"
        "\<forall>m p hs kw. op \<noteq> Request m p hs kw"
    by blast
  then show ?thesis
  proof cases
    case req
    let ?t = "http_request e m p (final_headers hs) kw s1"
    have c: "call e op s = returning AResponse (request e m p hs kw s)"
      using req by simp
    have sn: "snd (call e op s) = snd ?t"
      by (simp add: c snd_returning request_via [OF assms(4)])
    have fs: "fst (call e op s) =
                (case fst ?t of
                   Inl x \<Rightarrow> Inl x
                 | Inr r \<Rightarrow>
                     if status_code r \<ge> 400 then
                       Inl (WebtopRequestError
                              (m @ '' '' @ p @ '' failed ('' @ str_int (status_code r) @
                               ''): '' @ resp_text r))
                     else Inr (AResponse r))"
      by (simp add: c request_via [OF assms(4)] returning_def split: sum.splits)
    have sent: "\<exists>rq. build_request (http (client s1)) m p (final_headers hs) kw = Inr rq \<and>
                    wire (snd ?t) = wire s1 @ [rq] \<and> req_method rq = m \<and> req_path rq = p"
      if "fst ?t = Inr r" for r
      using http_request_sent [OF that] by blast
    show ?thesis
      apply (rule exI [of _ m], rule exI [of _ p], rule exI [of _ "final_headers hs"],
          rule exI [of _ kw])
      unfolding sn fs
      using req sent http_request_at_most_one [of e m p "final_headers hs" kw s1]
      by auto
  next
    case wrap
    let ?t = "http_request e ''POST'' p [] (json_only v) s1"
    have c: "call e op s =
             returning AValue (return_json (request e ''POST'' p None (json_only v) s))"
      using wrap(1) by simp
    have fh: "final_headers None = []" by (simp add: final_headers_def)
    have sn: "snd (call e op s) = snd ?t"
      by (simp add: c snd_returning snd_return_json request_via [OF assms(4)] fh)
    have fs: "fst (call e op s) =
                (case fst ?t of
                   Inl x \<Rightarrow> Inl x
                 | Inr r \<Rightarrow>
                     if status_code r \<ge> 400 then
                       Inl (WebtopRequestError
                              (''POST'' @ '' '' @ p @ '' failed ('' @ str_int (status_code r) @
                               ''): '' @ resp_text r))
                     else map_sum id AValue (json r))"
      by (simp add: c request_via [OF assms(4)] fh returning_def return_json_def
          split: sum.splits)
    have sent: "\<exists>rq. build_request (http (client s1)) ''POST'' p [] (json_only v) = Inr rq \<and>
                    wire (snd ?t) = wire s1 @ [rq] \<and> req_method rq = ''POST'' \<and> req_path rq = p"
      if "fst ?t = Inr r" for r
      using http_request_sent [OF that] by blast
    have kc: "kw_cookies (json_only v) = None" by (simp add: json_only_def)
    show ?thesis
      apply (rule exI [of _ "''POST''"], rule exI [of _ p], rule exI [of _ "[]"],
          rule exI [of _ "json_only v"])
      unfolding sn fs
      using wrap(2) sent kc http_request_at_most_one [of e "''POST''" p "[]" "json_only v" s1]
      by auto
  qed
qed

theorem request_failure_witness:
  "ensure_logged_in (portal login_ok not_found) (start parent) =
     (Inr (), snd (ensure_logged_in (portal login_ok not_found) (start parent))) \<and>
   status_code not_found \<ge> 400 \<and>
   length (wire (snd (call (portal login_ok not_found) GetStudents (start parent)))) = 2 \<and>
   fst (call (portal login_ok not_found) GetStudents (start parent)) =
     Inl (WebtopRequestError
            ''POST /server/api/dashboard/InitDashboard failed (404): Not Found'')"
proof -
  let ?e = "portal login_ok not_found"
  let ?s1 = "snd (ensure_logged_in ?e (start parent))"
  let ?c = "call ?e GetStudents (start parent)"
  have h1: "ensure_logged_in ?e (start parent) = (Inr (), ?s1)"
    by (simp add: scenario_defs run_defs)
  have h3: "status_code not_found \<ge> 400"
    by (simp add: scenario_defs)
  have shown: "str_int (status_code not_found) = ''404''" "resp_text not_found = ''Not Found''"
    by (simp_all add: scenario_defs run_defs)
  from request_failure [where op = GetStudents, OF _ _ _ h1]
  obtain m p hs kw where wrapper: "m = ''POST'' \<and> hs = [] \<and> kw_cookies kw = None"
    and sn: "snd ?c = snd (http_request ?e m p hs kw ?s1)"
    and err: "\<forall>r. fst (http_request ?e m p hs kw ?s1) = Inr r \<longrightarrow>
                (status_code r \<ge> 400 \<longrightarrow>
                   fst ?c =
                     Inl (WebtopRequestError
                            (m @ '' '' @ p @ '' failed ('' @ str_int (status_code r) @ ''): '' @
                             resp_text r)))"
    by auto
  have jar: "cookies (http (client ?s1)) = [(''webToken'', PStr ''T1'')]"
    "headers (http (client ?s1)) = [(''Content-Type'', ''application/json; charset=utf-8'')]"
    "\<not> is_closed (http (client ?s1))" "length (wire ?s1) = 1"
    by (simp_all add: scenario_defs run_defs)
  have path: "req_path (last (wire (snd ?c))) = ''/server/api/dashboard/InitDashboard''"
    and two: "length (wire (snd ?c)) = 2"
    by (simp_all add: scenario_defs run_defs get_students_def returning_def)
  have "req_path (last (wire (snd (http_request ?e m p hs kw ?s1)))) = p"
    using wrapper jar(1,2,3)
    by (simp add: http_request_def build_request_def merge_cookies_def cookies_ok_def
        has_cookie_header_def Let_def split: sum.splits)
  with sn path have p: "p = ''/server/api/dashboard/InitDashboard''"
    by simp
  have "fst (http_request ?e m p hs kw ?s1) = Inr not_found"
    using wrapper jar(1,2,3) p
    by (simp add: http_request_def build_request_def merge_cookies_def cookies_ok_def
        has_cookie_header_def Let_def portal_def LOGIN_PATH_def)
  with err h3 have "fst ?c =
                     Inl (WebtopRequestError
                            (m @ '' '' @ p @ '' failed ('' @ str_int (status_code not_found) @
                             ''): '' @ resp_text not_found))"
    by blast
  with wrapper p shown have "fst ?c =
     Inl (WebtopRequestError
            ''POST /server/api/dashboard/InitDashboard failed (404): Not Found'')"
    by simp
  with h1 h3 two show ?thesis by blast
qed

subsection \<open>The inbox with its defaults\<close>

text \<open>
  C6. \<^verbatim>\<open>get_messages_inbox()\<close> called with no arguments, once
  \<^verbatim>\<open>ensure_logged_in\<close> has let it through, is one call of the transport: a POST to
  \<^verbatim>\<open>/server/api/messageBox/GetMessagesInbox\<close> with no headers of its own and the JSON
  body \<^verbatim>\<open>{PageId: 1, LabelId: 0, HasRead: null, SearchQuery: ""}\<close>. Where the cookies
  in the jar are text and the client is open, and so whenever the transport returns a
  response, exactly that request goes on the wire; for a response below 400 the call
  returns what \<^verbatim>\<open>resp.json()\<close> gives, the parsed body. What the transport raises, the
  call raises.
\<close>

theorem get_messages_inbox_defaults:
  assumes "ensure_logged_in e s = (Inr (), s1)"
  shows
    "snd (get_messages_inbox e None None None None s) =
       snd (http_request e ''POST'' ''/server/api/messageBox/GetMessagesInbox'' []
              (json_only (PDict [(''PageId'', PInt 1), (''LabelId'', PInt 0),
                                 (''HasRead'', PNone), (''SearchQuery'', PStr '''')])) s1) \<and>
     (cookies_ok (cookies (http (client s1))) \<and> \<not> is_closed (http (client s1)) \<longrightarrow>
        wire (snd (get_messages_inbox e None None None None s)) =
          wire s1 @
          [\<lparr>req_method = ''POST'',
            req_path = ''/server/api/messageBox/GetMessagesInbox'',
            req_headers = [],
            req_json = Some (PDict [(''PageId'', PInt 1), (''LabelId'', PInt 0),
                                    (''HasRead'', PNone), (''SearchQuery'', PStr '''')]),
            req_cookies =
              (if has_cookie_header (headers (http (client s1))) then []
               else map (\<lambda>kv. (fst kv, the_str (snd kv))) (cookies (http (client s1))))\<rparr>]) \<and>
     (\<forall>x. fst (http_request e ''POST'' ''/server/api/messageBox/GetMessagesInbox'' []
                 (json_only (PDict [(''PageId'', PInt 1), (''LabelId'', PInt 0),
                                    (''HasRead'', PNone), (''SearchQuery'', PStr '''')])) s1)
            = Inl x \<longrightarrow>
          fst (get_messages_inbox e None None None None s) = Inl x) \<and>
     (\<forall>r. fst (http_request e ''POST'' ''/server/api/messageBox/GetMessagesInbox'' []
                 (json_only (PDict [(''PageId'', PInt 1), (''LabelId'', PInt 0),
                                    (''HasRead'', PNone), (''SearchQuery'', PStr '''')])) s1)
            = Inr r \<longrightarrow>
          cookies_ok (cookies (http (client s1))) \<and> \<not> is_closed (http (client s1)) \<and>
          (status_code r < 400 \<longrightarrow>
             fst (get_messages_inbox e None None None None s) = json r))"
proof -
  let ?body = "PDict [(''PageId'', PInt 1), (''LabelId'', PInt 0),
                      (''HasRead'', PNone), (''SearchQuery'', PStr '''')]"
  let ?p = "''/server/api/messageBox/GetMessagesInbox''"
  let ?t = "http_request e ''POST'' ?p [] (json_only ?body) s1"
  have fh: "final_headers None = []" by (simp add: final_headers_def)
  have inbox: "get_messages_inbox e None None None None s =
                 return_json (request e ''POST'' ?p None (json_only ?body) s)"
    by (simp add: get_messages_inbox_def opt_bool_def)
  have sn: "snd (get_messages_inbox e None None None None s) = snd ?t"
    by (simp add: inbox snd_return_json request_via [OF assms] fh)
  have fs: "fst (get_messages_inbox e None None None None s) =
              (case fst ?t of
                 Inl x \<Rightarrow> Inl x
               | Inr r \<Rightarrow>
                   if status_code r \<ge> 400 then
                     Inl (WebtopRequestError
                            (''POST'' @ '' '' @ ?p @ '' failed ('' @ str_int (status_code r) @
                             ''): '' @ resp_text r))
                   else json r)"
    by (simp add: inbox request_via [OF assms] fh return_json_def split: sum.splits)
  have built: "build_request (http (client s1)) ''POST'' ?p [] (json_only ?body) =
          (if \<not> cookies_ok (cookies (http (client s1))) then
             Inl (TypeError (type_name (snd (hd (filter (\<lambda>kv. \<not> is_str (snd kv))
                                                    (cookies (http (client s1))))))))
           else
             Inr \<lparr>req_method = ''POST'', req_path = ?p, req_headers = [],
                  req_json = Some ?body,
                  req_cookies =
                    (if has_cookie_header (headers (http (client s1))) then []
                     else map (\<lambda>kv. (fst kv, the_str (snd kv)))
                            (cookies (http (client s1))))\<rparr>)"
    by (simp add: build_request_def json_only_def merge_cookies_def has_cookie_header_def
        Let_def)
  have w: "wire (snd ?t) =
          wire s1 @
          [\<lparr>req_method = ''POST'', req_path = ?p, req_headers = [],
            req_json = Some ?body,
            req_cookies =
              (if has_cookie_header (headers (http (client s1))) then []
               else map (\<lambda>kv. (fst kv, the_str (snd kv))) (cookies (http (client s1))))\<rparr>]"
    if "cookies_ok (cookies (http (client s1)))" "\<not> is_closed (http (client s1))"
    using that by (simp add: http_request_wire built)
  have ok: "cookies_ok (cookies (http (client s1))) \<and> \<not> is_closed (http (client s1))"
    if "fst ?t = Inr r" for r
    using that by (auto simp: http_request_def built split: if_splits sum.splits)
  show ?thesis
    unfolding sn fs using w ok by auto
qed

theorem get_messages_inbox_defaults_witness:
  "ensure_logged_in (portal login_ok empty_ok) (start parent) =
     (Inr (), snd (ensure_logged_in (portal login_ok empty_ok) (start parent))) \<and>
   cookies_ok (cookies (http (client (snd (ensure_logged_in (portal login_ok empty_ok)
                                             (start parent)))))) \<and>
   \<not> is_closed (http (client (snd (ensure_logged_in (portal login_ok empty_ok)
                                       (start parent))))) \<and>
   last (wire (snd (get_messages_inbox (portal login_ok empty_ok) None None None None
                      (start parent)))) =
     \<lparr>req_method = ''POST'',
      req_path = ''/server/api/messageBox/GetMessagesInbox'',
      req_headers = [],
      req_json = Some (PDict [(''PageId'', PInt 1), (''LabelId'', PInt 0),
                              (''HasRead'', PNone), (''SearchQuery'', PStr '''')]),
      req_cookies = [(''webToken'', ''T1'')]\<rparr> \<and>
   fst (get_messages_inbox (portal login_ok empty_ok) None None None None (start parent)) =
     Inr (PDict [])"
proof -
  let ?e = "portal login_ok empty_ok"
  let ?s1 = "snd (ensure_logged_in ?e (start parent))"
  let ?body = "PDict [(''PageId'', PInt 1), (''LabelId'', PInt 0),
                      (''HasRead'', PNone), (''SearchQuery'', PStr '''')]"
  let ?p = "''/server/api/messageBox/GetMessagesInbox''"
  let ?inbox = "get_messages_inbox ?e None None None None (start parent)"
  have h1: "ensure_logged_in ?e (start parent) = (Inr (), ?s1)"
    by (simp add: scenario_defs run_defs)
  have jar: "cookies (http (client ?s1)) = [(''webToken'', PStr ''T1'')]"
    "headers (http (client ?s1)) = [(''Content-Type'', ''application/json; charset=utf-8'')]"
    by (simp_all add: scenario_defs run_defs)
  have h2: "cookies_ok (cookies (http (client ?s1)))" "\<not> is_closed (http (client ?s1))"
    by (simp_all add: scenario_defs run_defs)
  have answer: "fst (http_request ?e ''POST'' ?p [] (json_only ?body) ?s1) = Inr empty_ok"
    "status_code empty_ok < 400" "json empty_ok = Inr (PDict [])"
    by (simp_all add: scenario_defs run_defs)
  from get_messages_inbox_defaults [OF h1] h2
  have w: "wire (snd ?inbox) =
          wire ?s1 @
          [\<lparr>req_method = ''POST'', req_path = ?p, req_headers = [],
            req_json = Some ?body,
            req_cookies =
              (if has_cookie_header (headers (http (client ?s1))) then []
               else map (\<lambda>kv. (fst kv, the_str (snd kv))) (cookies (http (client ?s1))))\<rparr>]"
    by blast
  from get_messages_inbox_defaults [OF h1] answer(1,2)
  have "fst ?inbox = json empty_ok"
    by blast
  with answer(3) have v: "fst ?inbox = Inr (PDict [])"
    by simp
  have "(if has_cookie_header (headers (http (client ?s1))) then []
         else map (\<lambda>kv. (fst kv, the_str (snd kv))) (cookies (http (client ?s1)))) =
        [(''webToken'', ''T1'')]"
    unfolding jar by (simp add: has_cookie_header_def)
  with w have "last (wire (snd ?inbox)) =
     \<lparr>req_method = ''POST'', req_path = ?p, req_headers = [],
      req_json = Some ?body, req_cookies = [(''webToken'', ''T1'')]\<rparr>"
    by simp
  with h1 h2 v show ?thesis by blast
qed

subsection \<open>Logged in stays logged in\<close>

text \<open>
  C7. The login state only moves from not logged in to logged in. Every operation leaves
  the session as it was or puts a session in its place; so a client that is logged in is
  logged in after any sequence of operations, and in particular after a \<^verbatim>\<open>login()\<close>
  that succeeded \<^verbatim>\<open>is_logged_in\<close> never goes back to false.
\<close>

theorem session_never_lost:
  "(session (client (exec e op s)) = session (client s) \<or>
    session (client (exec e op s)) \<noteq> None) \<and>
   (is_logged_in (client s) \<longrightarrow> is_logged_in (client (run e ops s))) \<and>
   (\<forall>sess. fst (login e s) = Inr sess \<longrightarrow> is_logged_in (client (run e ops (snd (login e s)))))"
proof -
  have one: "session (client (exec e op s)) = session (client s) \<or>
             session (client (exec e op s)) \<noteq> None"
    using exec_session [of e op s] by auto
  have two: "is_logged_in (client s) \<longrightarrow> is_logged_in (client (run e ops s))"
    by (simp add: is_logged_in_def run_session_present)
  have three: "is_logged_in (client (run e ops (snd (login e s))))"
    if "fst (login e s) = Inr sess" for sess
  proof -
    from that have "login e s = (Inr sess, snd (login e s))" by (metis prod.collapse)
    then have "session (client (snd (login e s))) \<noteq> None"
      using login_Inr [of e s sess "snd (login e s)"] by simp
    then show ?thesis by (simp add: is_logged_in_def run_session_present)
  qed
  from one two three show ?thesis by blast
qed

theorem session_never_lost_witness:
  "fst (login (portal login_ok not_found) (start parent)) =
     Inr \<lparr>token = PStr ''T1'', user_id = PStr ''U1'', student_id = PNone, school_id = PNone,
           school_name = PNone, first_name = PStr ''Jane'', last_name = PStr ''Doe'',
           raw_login_data = jane\<rparr> \<and>
   is_logged_in (client (run (portal login_ok not_found) [GetStudents, Close, Login]
                           (snd (login (portal login_ok not_found) (start parent)))))"
proof -
  have h: "fst (login (portal login_ok not_found) (start parent)) =
     Inr \<lparr>token = PStr ''T1'', user_id = PStr ''U1'', student_id = PNone, school_id = PNone,
           school_name = PNone, first_name = PStr ''Jane'', last_name = PStr ''Doe'',
           raw_login_data = jane\<rparr>"
    by (simp add: scenario_defs run_defs)
  show ?thesis
    using session_never_lost [where e = "portal login_ok not_found" and s = "start parent"
        and ops = "[GetStudents, Close, Login]"] h
    by simp
qed

subsection \<open>The configuration is fixed at construction\<close>

text \<open>
  C8. No operation changes the configuration (username, password, the opaque data
  parameter, remember-me flag, biometric-login string, base URL, timeout, auto-login flag):
  after any sequence of operations it is what \<^verbatim>\<open>__init__\<close> stored. Apart from
  \<^verbatim>\<open>close()\<close>, the operations change nothing of the client but its session and its
  cookie jar.
\<close>

theorem configuration_immutable:
  "configuration (client (run e ops s)) = configuration (client s) \<and>
   (Close \<notin> set ops \<longrightarrow> fixed_part (client (run e ops s)) = fixed_part (client s)) \<and>
   configuration
     (client (run e ops (start (init usr pw (Some dat) (Some rem) (Some bio) (Some url)
                                  (Some tmo) (Some auto))))) =
     (usr, pw, dat, rem, bio, rstrip_slash url, tmo, auto)"
proof -
  have "configuration (init usr pw (Some dat) (Some rem) (Some bio) (Some url)
                                  (Some tmo) (Some auto)) =
        (usr, pw, dat, rem, bio, rstrip_slash url, tmo, auto)"
    by (simp add: configuration_def init_def Let_def)
  then show ?thesis
    by (simp add: run_configuration run_fixed_part start_def)
qed

theorem configuration_immutable_witness:
  "Close \<notin> set [Login, GetStudents, GetMessagesInbox None None None None] \<and>
   fixed_part (client (run (portal login_ok empty_ok)
                         [Login, GetStudents, GetMessagesInbox None None None None]
                         (start parent))) = fixed_part parent \<and>
   session (client (run (portal login_ok empty_ok)
                         [Login, GetStudents, GetMessagesInbox None None None None]
                         (start parent))) \<noteq> session parent"
proof -
  have h: "Close \<notin> set [Login, GetStudents, GetMessagesInbox None None None None]" by simp
  have c: "session (client (run (portal login_ok empty_ok)
                         [Login, GetStudents, GetMessagesInbox None None None None]
                         (start parent))) \<noteq> session parent"
    by (simp add: scenario_defs run_defs get_students_def get_messages_inbox_def)
  show ?thesis
    using configuration_immutable [where e = "portal login_ok empty_ok"
        and ops = "[Login, GetStudents, GetMessagesInbox None None None None]"
        and s = "start parent"] h c
    by (simp add: start_def)
qed

subsection \<open>What a failed login leaves behind\<close>




subsection \<open>The token of a stored session\<close>

text \<open>
  C10, as the claim states it, ends with: in every reachable state with a session,
  \<^verbatim>\<open>session.token\<close> is a non-empty string. The guard of \<^verbatim>\<open>login()\<close> is
  \<^verbatim>\<open>if not token\<close>, a test of truth and not of type: a portal that sends the number 5 as
  \<^verbatim>\<open>data.token\<close> gets a session whose token is that number.
\<close>

theorem token_not_a_string:
  "session (client (run (portal token_is_number empty_ok) [Login] (start parent))) =
     Some \<lparr>token = PInt 5, user_id = PNone, student_id = PNone, school_id = PNone,
            school_name = PNone, first_name = PNone, last_name = PNone,
            raw_login_data = PDict [(''token'', PInt 5)]\<rparr>"
  by (simp add: scenario_defs run_defs)

text \<open>
  C10, amended. A login response with status true whose \<^verbatim>\<open>data\<close> is falsy (null,
  missing, empty), or whose \<^verbatim>\<open>data\<close> is an object with a falsy \<^verbatim>\<open>token\<close> (missing, null,
  the empty string), makes \<^verbatim>\<open>login()\<close> raise \<^verbatim>\<open>WebtopLoginError\<close>. A session that
  \<^verbatim>\<open>login()\<close> returns has a truthy token, and so has the session of every state reached
  from a fresh client by any sequence of operations: the token is never null and never the
  empty string.
\<close>

theorem stored_token_truthy:
  "(fst (login_post e s) = Inr r \<and> status_code r < 400 \<and> json r = Inr (PDict b) \<and>
    dict_get b ''status'' = PBool True \<and>
    (\<not> truthy (dict_get b ''data'') \<or>
     (\<exists>d. dict_get b ''data'' = PDict d \<and> \<not> truthy (dict_get d ''token'')))
    \<longrightarrow> login e s = (Inl (WebtopLoginError ''Login succeeded but data.token is missing''),
                     snd (login_post e s))) \<and>
   (\<forall>sess. fst (login e s) = Inr sess \<longrightarrow>
      truthy (token sess) \<and> token sess \<noteq> PNone \<and> token sess \<noteq> PStr []) \<and>
   ((\<forall>x. session (client s) = Some x \<longrightarrow> truthy (token x)) \<longrightarrow>
    (\<forall>y. session (client (run e ops s)) = Some y \<longrightarrow>
       truthy (token y) \<and> token y \<noteq> PNone \<and> token y \<noteq> PStr [])) \<and>
   (\<forall>y. session (client (run e ops (start (init usr pw dat rem bio url tmo auto)))) = Some y
      \<longrightarrow> truthy (token y) \<and> token y \<noteq> PNone \<and> token y \<noteq> PStr [])"
proof -
  have nonempty: "truthy v \<Longrightarrow> v \<noteq> PNone \<and> v \<noteq> PStr []" for v
    by auto
  have one: "login e s = (Inl (WebtopLoginError ''Login succeeded but data.token is missing''),
                     snd (login_post e s))"
    if "fst (login_post e s) = Inr r" "status_code r < 400" "json r = Inr (PDict b)"
      "dict_get b ''status'' = PBool True"
      "\<not> truthy (dict_get b ''data'') \<or>
       (\<exists>d. dict_get b ''data'' = PDict d \<and> \<not> truthy (dict_get d ''token''))"
    using that login_data_falsy [of e s r b] login_token_falsy [of e s r b] by blast
  have two: "truthy (token sess)" if "fst (login e s) = Inr sess" for sess
  proof -
    from that have "login e s = (Inr sess, snd (login e s))" by (metis prod.collapse)
    then show ?thesis using login_Inr [of e s sess "snd (login e s)"] by simp
  qed
  have three: "\<forall>y. session (client (run e ops s)) = Some y \<longrightarrow> truthy (token y)"
    if "\<forall>x. session (client s) = Some x \<longrightarrow> truthy (token x)"
    using that by (rule run_token_truthy)
  have "\<forall>x. session (client (start (init usr pw dat rem bio url tmo auto))) = Some x
          \<longrightarrow> truthy (token x)"
    by (simp add: start_def init_def Let_def)
  then have four:
    "\<forall>y. session (client (run e ops (start (init usr pw dat rem bio url tmo auto)))) = Some y
       \<longrightarrow> truthy (token y)"
    by (rule run_token_truthy)
  from one two three four nonempty show ?thesis by blast
qed

theorem stored_token_truthy_witness:
  "fst (login_post (portal token_missing empty_ok) (start parent)) = Inr token_missing \<and>
   status_code token_missing < 400 \<and>
   json token_missing =
     Inr (PDict [(''status'', PBool True), (''data'', PDict [(''userId'', PStr ''U1'')])]) \<and>
   dict_get [(''userId'', PStr ''U1'')] ''token'' = PNone \<and>
   fst (login (portal token_missing empty_ok) (start parent)) =
     Inl (WebtopLoginError ''Login succeeded but data.token is missing'') \<and>
   session (client (run (portal login_ok empty_ok) [GetStudents] (start parent))) =
     Some \<lparr>token = PStr ''T1'', user_id = PStr ''U1'', student_id = PNone, school_id = PNone,
            school_name = PNone, first_name = PStr ''Jane'', last_name = PStr ''Doe'',
            raw_login_data = jane\<rparr> \<and>
   truthy (PStr ''T1'')"
proof -
  let ?b = "[(''status'', PBool True), (''data'', PDict [(''userId'', PStr ''U1'')])]"
  have h1: "fst (login_post (portal token_missing empty_ok) (start parent)) = Inr token_missing"
    by (simp add: scenario_defs run_defs)
  have h2: "status_code token_missing < 400"
    by (simp add: scenario_defs)
  have h3: "json token_missing = Inr (PDict ?b)"
    by (simp add: scenario_defs)
  have h4: "dict_get ?b ''status'' = PBool True"
    by (simp add: dict_get_def)
  have h5: "dict_get ?b ''data'' = PDict [(''userId'', PStr ''U1'')]"
    by (simp add: dict_get_def)
  have h6: "dict_get [(''userId'', PStr ''U1'')] ''token'' = PNone"
    by (simp add: dict_get_def)
  have a: "fst (login (portal token_missing empty_ok) (start parent)) =
             Inl (WebtopLoginError ''Login succeeded but data.token is missing'')"
    using stored_token_truthy [where e = "portal token_missing empty_ok" and s = "start parent"
        and r = token_missing and b = ?b] h1 h2 h3 h4 h5 h6
    by simp
  let ?y = "\<lparr>token = PStr ''T1'', user_id = PStr ''U1'', student_id = PNone, school_id = PNone,
            school_name = PNone, first_name = PStr ''Jane'', last_name = PStr ''Doe'',
            raw_login_data = jane\<rparr>"
  have h7: "session (client (run (portal login_ok empty_ok) [GetStudents]
              (start (init ''user'' ''secret'' None None None None None None)))) = Some ?y"
    by (simp add: scenario_defs run_defs get_students_def)
  have b: "truthy (PStr ''T1'')"
    using stored_token_truthy [where e = "portal login_ok empty_ok" and ops = "[GetStudents]"
        and usr = "''user''" and pw = "''secret''" and dat = None and rem = None and bio = None
        and url = None and tmo = None and auto = None] h7
    by simp
  from h1 h2 h3 h6 a b h7 show ?thesis by (simp add: parent_def)
qed

end
